theory Spec2Isabelle
  imports Complex_Main
begin

section \<open>Python values used by the survey scripts\<close>

subsection \<open>Text\<close>

text \<open>
  A Python \<open>str\<close> is a sequence of Unicode code points; it is modelled as a list of
  natural numbers. \<open>U\<close> turns an Isabelle literal into such a list, so \<open>U ''no''\<close> is
  the Python literal \<open>"no"\<close>. The table keys that contain the en dash U+2013 (8211)
  splice it in explicitly.

  \<open>str.strip()\<close> removes, at both ends, the characters for which \<open>str.isspace\<close>
  holds; \<open>isspace_cp\<close> lists all of them. \<open>str.lower\<close> is reproduced for the code
  points U+0000 to U+00FF, where the upper-case letters are A to Z and U+00C0 to
  U+00DE without U+00D7; a code point above U+00FF is left as it is, which is right
  for the en dash, and the case table of Unicode above U+00FF is not reproduced.

  \<open>str.isdecimal\<close> and \<open>str.isdigit\<close> are given by the tables of Unicode 14.0, the
  version of CPython 3.11: \<open>decimal_ranges\<close> are the decimal digits of all scripts,
  each range a whole number of runs 0 to 9, and \<open>other_digit_ranges\<close> are the
  characters that \<open>isdigit\<close> accepts and \<open>isdecimal\<close> does not, such as the
  superscripts and the circled digits. Python's integers are unbounded (\<open>int\<close>), and
  the interpreter's limit on the length of a decimal literal is outside the model.
\<close>

type_synonym pystr = "nat list"

definition U :: "string \<Rightarrow> pystr" where
  "U s = map of_char s"

definition isspace_cp :: "nat \<Rightarrow> bool" where
  "isspace_cp c \<longleftrightarrow>
     (9 \<le> c \<and> c \<le> 13) \<or> (28 \<le> c \<and> c \<le> 32) \<or> c = 133 \<or> c = 160 \<or> c = 5760 \<or>
     (8192 \<le> c \<and> c \<le> 8202) \<or> c = 8232 \<or> c = 8233 \<or> c = 8239 \<or> c = 8287 \<or>
     c = 12288"

definition strip :: "pystr \<Rightarrow> pystr" where
  "strip s = rev (dropWhile isspace_cp (rev (dropWhile isspace_cp s)))"

definition lower_cp :: "nat \<Rightarrow> nat" where
  "lower_cp c =
     (if (65 \<le> c \<and> c \<le> 90) \<or> (192 \<le> c \<and> c \<le> 222 \<and> c \<noteq> 215) then c + 32 else c)"

definition lower :: "pystr \<Rightarrow> pystr" where
  "lower s = map lower_cp s"

definition in_ranges :: "nat \<Rightarrow> (nat \<times> nat) list \<Rightarrow> bool" where
  "in_ranges c rs = list_ex (\<lambda>(a, b). a \<le> c \<and> c \<le> b) rs"

definition decimal_ranges :: "(nat \<times> nat) list" where
  "decimal_ranges =
     [(48, 57), (1632, 1641), (1776, 1785), (1984, 1993), (2406, 2415), (2534, 2543),
      (2662, 2671), (2790, 2799), (2918, 2927), (3046, 3055), (3174, 3183),
      (3302, 3311), (3430, 3439), (3558, 3567), (3664, 3673), (3792, 3801),
      (3872, 3881), (4160, 4169), (4240, 4249), (6112, 6121), (6160, 6169),
      (6470, 6479), (6608, 6617), (6784, 6793), (6800, 6809), (6992, 7001),
      (7088, 7097), (7232, 7241), (7248, 7257), (42528, 42537), (43216, 43225),
      (43264, 43273), (43472, 43481), (43504, 43513), (43600, 43609), (44016, 44025),
      (65296, 65305), (66720, 66729), (68912, 68921), (69734, 69743), (69872, 69881),
      (69942, 69951), (70096, 70105), (70384, 70393), (70736, 70745), (70864, 70873),
      (71248, 71257), (71360, 71369), (71472, 71481), (71904, 71913), (72016, 72025),
      (72784, 72793), (73040, 73049), (73120, 73129), (92768, 92777), (92864, 92873),
      (93008, 93017), (120782, 120831), (123200, 123209), (123632, 123641),
      (125264, 125273), (130032, 130041)]"

definition other_digit_ranges :: "(nat \<times> nat) list" where
  "other_digit_ranges =
     [(178, 179), (185, 185), (4969, 4977), (6618, 6618), (8304, 8304), (8308, 8313),
      (8320, 8329), (9312, 9320), (9332, 9340), (9352, 9360), (9450, 9450),
      (9461, 9469), (9471, 9471), (10102, 10110), (10112, 10120), (10122, 10130),
      (68160, 68163), (69216, 69224), (69714, 69722), (127232, 127242)]"

definition isdecimal_cp :: "nat \<Rightarrow> bool" where
  "isdecimal_cp c \<longleftrightarrow> in_ranges c decimal_ranges"

definition isdigit_cp :: "nat \<Rightarrow> bool" where
  "isdigit_cp c \<longleftrightarrow> isdecimal_cp c \<or> in_ranges c other_digit_ranges"

definition isdigit :: "pystr \<Rightarrow> bool" where
  "isdigit s \<longleftrightarrow> s \<noteq> [] \<and> list_all isdigit_cp s"

text \<open>The value of a decimal digit: its place in its run 0 to 9.\<close>

definition digit_value :: "nat \<Rightarrow> nat" where
  "digit_value c =
     (case find (\<lambda>(a, b). a \<le> c \<and> c \<le> b) decimal_ranges of
        None \<Rightarrow> 0
      | Some (a, b) \<Rightarrow> (c - a) mod 10)"

datatype error = KeyError | AttributeError | ValueError | IndexError

text \<open>
  \<open>int(s)\<close> in base 10: surrounding whitespace is dropped, one sign is allowed, then
  come decimal digits of any script, where single underscores may stand between two
  digits. Anything else raises \<open>ValueError\<close>. The whitespace that \<open>int\<close> drops is
  that of \<open>str.isspace\<close> without the separators U+001C to U+001F, which \<open>int\<close>
  refuses. \<open>int_digits acc cs\<close> reads what follows a digit, \<open>acc\<close> being the value
  read so far.
\<close>

definition int_isspace_cp :: "nat \<Rightarrow> bool" where
  "int_isspace_cp c \<longleftrightarrow> isspace_cp c \<and> \<not> (28 \<le> c \<and> c \<le> 31)"

definition int_strip :: "pystr \<Rightarrow> pystr" where
  "int_strip s = rev (dropWhile int_isspace_cp (rev (dropWhile int_isspace_cp s)))"

fun int_digits :: "nat \<Rightarrow> pystr \<Rightarrow> nat option" where
  "int_digits acc [] = Some acc"
| "int_digits acc [c] = (if isdecimal_cp c then Some (10 * acc + digit_value c) else None)"
| "int_digits acc (c # d # cs) =
     (if c = 95 then
        (if isdecimal_cp d then int_digits (10 * acc + digit_value d) cs else None)
      else if isdecimal_cp c then int_digits (10 * acc + digit_value c) (d # cs)
      else None)"

definition int_unsigned :: "pystr \<Rightarrow> nat option" where
  "int_unsigned s =
     (case s of
        [] \<Rightarrow> None
      | c # cs \<Rightarrow> if isdecimal_cp c then int_digits (digit_value c) cs else None)"

definition py_int :: "pystr \<Rightarrow> error + int" where
  "py_int s =
     (let t = int_strip s;
          neg = (case t of [] \<Rightarrow> False | c # _ \<Rightarrow> c = 45);
          body = (case t of [] \<Rightarrow> [] | c # cs \<Rightarrow> if c = 43 \<or> c = 45 then cs else t)
      in case int_unsigned body of
           None \<Rightarrow> Inl ValueError
         | Some v \<Rightarrow> Inr (if neg then - int v else int v))"

section \<open>The encoder: create_clean_csv.py\<close>

subsection \<open>Encoding maps\<close>

text \<open>
  The dictionaries of the script, as association lists in the order of the source;
  \<open>map_of\<close> is the lookup. No dictionary has a key twice.
\<close>

definition Q7_MAP :: "(pystr \<times> int) list" where
  "Q7_MAP =
     [(U ''not at all'', 1),
      (U ''neutral'', 2),
      (U ''slightly distracting'', 3),
      (U ''moderately distracting'', 4),
      (U ''highly distracting'', 5),
      (U ''severely affects rest quality'', 6)]"

definition Q11_MAP :: "(pystr \<times> int) list" where
  "Q11_MAP =
     [(U ''improves significantly'', 1),
      (U ''neutral'', 2),
      (U ''reduces slightly'', 3),
      (U ''reduces significantly'', 4)]"

definition AGE_MAP :: "(pystr \<times> int) list" where
  "AGE_MAP =
     [(U ''18 '' @ [8211] @ U '' 25'', 1),
      (U ''26 '' @ [8211] @ U '' 40'', 2),
      (U ''41 '' @ [8211] @ U '' 59'', 3),
      (U ''60+'', 4)]"

definition DURATION_MAP :: "(pystr \<times> int) list" where
  "DURATION_MAP =
     [(U ''less than 1 year'', 1),
      (U ''1 - 5 years'', 2),
      (U ''5 - 10 years'', 3),
      (U ''more than 10 years'', 4)]"

definition FLOOR_MAP :: "(pystr \<times> int) list" where
  "FLOOR_MAP =
     [(U ''low rise (floors 1'' @ [8211] @ U ''5)'', 1),
      (U ''mid rise (floors 6'' @ [8211] @ U ''10)'', 2),
      (U ''high rise (floors 11+)'', 3)]"

definition COMMUNITY_MAP :: "(pystr \<times> int) list" where
  "COMMUNITY_MAP =
     [(U ''no'', 0),
      (U ''neutral'', 1),
      (U ''maybe'', 1),
      (U ''yes'', 2),
      (U ''yes, i feel a strong connection.'', 2),
      (U ''yes, very strong'', 2)]"

definition NOISE_SPIKE_MAP :: "(pystr \<times> int) list" where
  "NOISE_SPIKE_MAP = [(U ''no'', 0)]"

subsection \<open>encode and noise_spike\<close>

text \<open>
  \<open>mapping.get(key, default)\<close> with the default \<open>None\<close> of \<open>encode\<close>: the result
  is \<open>None\<close> exactly when the key is absent. Every call in the script leaves the
  default at \<open>None\<close>; \<open>encode_default\<close> is the function with all three arguments.
\<close>

definition encode_default :: "pystr \<Rightarrow> (pystr \<times> int) list \<Rightarrow> int option \<Rightarrow> int option" where
  "encode_default val mapping dflt =
     (case map_of mapping (lower (strip val)) of None \<Rightarrow> dflt | Some code \<Rightarrow> Some code)"

definition encode :: "pystr \<Rightarrow> (pystr \<times> int) list \<Rightarrow> int option" where
  "encode val mapping = encode_default val mapping None"

definition noise_spike :: "pystr \<Rightarrow> int" where
  "noise_spike val = (if lower (strip val) = U ''no'' then 0 else 1)"

subsection \<open>main\<close>

text \<open>
  A row of \<open>csv.DictReader\<close> is a dictionary from column header to cell. The twelve
  headers the script reads are the constructors of \<open>column\<close>, in the order of the
  reads. A header that the file lacks is absent from the row (\<open>KeyError\<close>); a
  row shorter than the header has \<open>None\<close> in its last cells, on which \<open>strip\<close> raises
  \<open>AttributeError\<close>.
\<close>

datatype column =
    Col12_site | Col1_age | Col2_duration | Col3_floor | Col4_noise | Col5_sources
  | Col6_spike | Col7_concentration | Col8_air | Col9_convenience | Col10_community
  | Col11_qol

type_synonym raw_row = "column \<Rightarrow> pystr option option"

definition cell :: "raw_row \<Rightarrow> column \<Rightarrow> error + pystr" where
  "cell row c =
     (case row c of
        None \<Rightarrow> Inl KeyError
      | Some None \<Rightarrow> Inl AttributeError
      | Some (Some v) \<Rightarrow> Inr (strip v))"

record clean_record =
  respondent_id :: int
  site :: pystr
  age_group :: pystr
  age_numeric :: "int option"
  residency_duration :: pystr
  residency_numeric :: "int option"
  floor_level :: pystr
  floor_numeric :: "int option"
  Q4_noise_rating :: "int option"
  Q5_noise_sources :: pystr
  Q6_noise_spike :: int
  Q6_spike_raw :: pystr
  Q7_concentration_raw :: pystr
  Q7_concentration :: "int option"
  Q8_air_quality :: "int option"
  Q9_convenience_raw :: pystr
  Q10_community_raw :: pystr
  Q10_community :: "int option"
  Q11_QoL_raw :: pystr
  Q11_QoL :: "int option"

text \<open>\<open>int(q) if q.isdigit() else None\<close>: \<open>int\<close> runs only behind the guard, and
  its \<open>ValueError\<close> is not caught.\<close>

definition rating :: "pystr \<Rightarrow> error + int option" where
  "rating q =
     (if isdigit q then (case py_int q of Inl e \<Rightarrow> Inl e | Inr n \<Rightarrow> Inr (Some n))
      else Inr None)"

definition bind :: "error + 'a \<Rightarrow> ('a \<Rightarrow> error + 'b) \<Rightarrow> error + 'b" where
  "bind m f = (case m of Inl e \<Rightarrow> Inl e | Inr x \<Rightarrow> f x)"

text \<open>The body of the loop of \<open>main\<close>: the twelve reads in the order of the
  source, then the dictionary appended to \<open>rows_out\<close>.\<close>

definition encode_row :: "int \<Rightarrow> raw_row \<Rightarrow> error + clean_record" where
  "encode_row idx row =
     bind (cell row Col12_site) (\<lambda>site'.
     bind (cell row Col1_age) (\<lambda>age_raw.
     bind (cell row Col2_duration) (\<lambda>dur_raw.
     bind (cell row Col3_floor) (\<lambda>floor_raw.
     bind (cell row Col4_noise) (\<lambda>q4.
     bind (cell row Col5_sources) (\<lambda>q5.
     bind (cell row Col6_spike) (\<lambda>q6_raw.
     bind (cell row Col7_concentration) (\<lambda>q7_raw.
     bind (cell row Col8_air) (\<lambda>q8.
     bind (cell row Col9_convenience) (\<lambda>q9_raw.
     bind (cell row Col10_community) (\<lambda>q10_raw.
     bind (cell row Col11_qol) (\<lambda>q11_raw.
     bind (rating q4) (\<lambda>r4.
     bind (rating q8) (\<lambda>r8.
       Inr \<lparr> respondent_id = idx,
             site = site',
             age_group = age_raw,
             age_numeric = encode age_raw AGE_MAP,
             residency_duration = dur_raw,
             residency_numeric = encode dur_raw DURATION_MAP,
             floor_level = floor_raw,
             floor_numeric = encode floor_raw FLOOR_MAP,
             Q4_noise_rating = r4,
             Q5_noise_sources = q5,
             Q6_noise_spike = noise_spike q6_raw,
             Q6_spike_raw = q6_raw,
             Q7_concentration_raw = q7_raw,
             Q7_concentration = encode q7_raw Q7_MAP,
             Q8_air_quality = r8,
             Q9_convenience_raw = q9_raw,
             Q10_community_raw = q10_raw,
             Q10_community = encode q10_raw COMMUNITY_MAP,
             Q11_QoL_raw = q11_raw,
             Q11_QoL = encode q11_raw Q11_MAP \<rparr>))))))))))))))"

text \<open>\<open>for idx, row in enumerate(reader, start=1)\<close>: the first exception ends the run.\<close>

fun encode_rows :: "int \<Rightarrow> raw_row list \<Rightarrow> error + clean_record list" where
  "encode_rows idx [] = Inr []"
| "encode_rows idx (row # rows) =
     bind (encode_row idx row) (\<lambda>r.
     bind (encode_rows (idx + 1) rows) (\<lambda>rs. Inr (r # rs)))"

text \<open>
  What \<open>main\<close> writes: the header, taken from the keys of \<open>rows_out[0]\<close>, and the
  rows. The output file is opened after the header has been computed, so a run that
  raises there writes nothing.
\<close>

definition fieldnames :: "pystr list" where
  "fieldnames =
     [U ''respondent_id'', U ''site'', U ''age_group'', U ''age_numeric'',
      U ''residency_duration'', U ''residency_numeric'', U ''floor_level'',
      U ''floor_numeric'', U ''Q4_noise_rating'', U ''Q5_noise_sources'',
      U ''Q6_noise_spike'', U ''Q6_spike_raw'', U ''Q7_concentration_raw'',
      U ''Q7_concentration'', U ''Q8_air_quality'', U ''Q9_convenience_raw'',
      U ''Q10_community_raw'', U ''Q10_community'', U ''Q11_QoL_raw'', U ''Q11_QoL'']"

definition main :: "raw_row list \<Rightarrow> error + (pystr list \<times> clean_record list)" where
  "main reader =
     bind (encode_rows 1 reader) (\<lambda>rows_out.
       case rows_out of
         [] \<Rightarrow> Inl IndexError
       | r # _ \<Rightarrow> Inr (fieldnames, rows_out))"

subsection \<open>Decimal text and sample rows\<close>

text \<open>
  \<open>decimal_value\<close> is the number a string of decimal digits denotes; \<open>digits\<close> and
  \<open>str_int\<close> are \<open>str(n)\<close> for a natural number and for an integer. \<open>blank_row\<close> is
  a row whose twelve cells are all empty, and \<open>sample_clean\<close> the record it encodes to,
  up to the noise rating.
\<close>

definition decimal_value :: "pystr \<Rightarrow> nat" where
  "decimal_value s = foldl (\<lambda>acc c. 10 * acc + digit_value c) 0 s"

fun digits :: "nat \<Rightarrow> pystr" where
  "digits n = (if n < 10 then [48 + n] else digits (n div 10) @ [48 + n mod 10])"

declare digits.simps [simp del]

definition str_int :: "int \<Rightarrow> pystr" where
  "str_int i = (if i < 0 then 45 # digits (nat (- i)) else digits (nat i))"

definition blank_row :: raw_row where
  "blank_row = (\<lambda>c. Some (Some []))"

definition sample_clean :: "int option \<Rightarrow> clean_record" where
  "sample_clean q4 =
     \<lparr> respondent_id = 1, site = [], age_group = [], age_numeric = None,
       residency_duration = [], residency_numeric = None, floor_level = [],
       floor_numeric = None, Q4_noise_rating = q4, Q5_noise_sources = [],
       Q6_noise_spike = 1, Q6_spike_raw = [], Q7_concentration_raw = [],
       Q7_concentration = None, Q8_air_quality = None, Q9_convenience_raw = [],
       Q10_community_raw = [], Q10_community = None, Q11_QoL_raw = [], Q11_QoL = None \<rparr>"


section \<open>The analysis scripts\<close>

subsection \<open>Floats, the table and the statistics library\<close>

text \<open>
  A Python float is modelled as the real number it denotes, an infinity, or \<open>NaN\<close>;
  a comparison with \<open>NaN\<close> is false. The second argument of the comparisons is
  a literal of the source. The literals \<open>0.05\<close>, \<open>0.4\<close> and \<open>0.7\<close> are the doubles
  nearest to these decimals, written here as exact fractions.
\<close>

datatype pyfloat = Float real | PosInf | NegInf | NaN

definition flt :: "pyfloat \<Rightarrow> real \<Rightarrow> bool" where
  "flt x c = (case x of Float r \<Rightarrow> r < c | PosInf \<Rightarrow> False | NegInf \<Rightarrow> True | NaN \<Rightarrow> False)"

definition fgt :: "pyfloat \<Rightarrow> real \<Rightarrow> bool" where
  "fgt x c = (case x of Float r \<Rightarrow> r > c | PosInf \<Rightarrow> True | NegInf \<Rightarrow> False | NaN \<Rightarrow> False)"

definition fge :: "pyfloat \<Rightarrow> real \<Rightarrow> bool" where
  "fge x c = (case x of Float r \<Rightarrow> r \<ge> c | PosInf \<Rightarrow> True | NegInf \<Rightarrow> False | NaN \<Rightarrow> False)"

definition fabs :: "pyfloat \<Rightarrow> pyfloat" where
  "fabs x = (case x of Float r \<Rightarrow> Float \<bar>r\<bar> | PosInf \<Rightarrow> PosInf | NegInf \<Rightarrow> PosInf
             | NaN \<Rightarrow> NaN)"

definition lit_0_05 :: real where
  "lit_0_05 = 3602879701896397 / 72057594037927936"

definition lit_0_4 :: real where
  "lit_0_4 = 3602879701896397 / 9007199254740992"

definition lit_0_7 :: real where
  "lit_0_7 = 3152519739159347 / 4503599627370496"

text \<open>
  A row of the data frame that \<open>pd.read_csv\<close> builds from \<open>survey_clean.csv\<close>, with
  the columns the modelled analyses read: a text column holds a string or NaN, a
  numeric column a number or NaN (\<open>None\<close> is NaN). The columns carry the prefix
  \<open>df_\<close>; a column name passed around by the source is the selector here.
\<close>

record df_row =
  df_site :: "pystr option"
  df_floor_level :: "pystr option"
  df_Q4_noise_rating :: "real option"
  df_Q7_concentration :: "real option"
  df_Q8_air_quality :: "real option"
  df_Q11_QoL :: "real option"

type_synonym dataframe = "df_row list"

text \<open>
  The functions of \<open>scipy.stats\<close> are parameters of the model: each returns its
  result or raises. Nothing is assumed about what they compute.
\<close>

record scipy_stats =
  spearmanr :: "real list \<Rightarrow> real list \<Rightarrow> error + (pyfloat \<times> pyfloat)"
  kruskal :: "real list list \<Rightarrow> error + (pyfloat \<times> pyfloat)"
  mannwhitneyu :: "real list \<Rightarrow> real list \<Rightarrow> error + (pyfloat \<times> pyfloat)"
  fisher_exact :: "int list list \<Rightarrow> error + (pyfloat \<times> pyfloat)"
  chi2_contingency :: "int list list \<Rightarrow> error + (pyfloat \<times> pyfloat \<times> int)"

text \<open>
  What a script does is the list of its events, in order: the calls into the
  library with their arguments, and the lines that report a result, kept as their
  parts since the rendering of a float is not modelled. Banners and the plotting
  calls are left out. An exception ends the script; the events before it remain.
\<close>

datatype event =
    Call_spearmanr "real list" "real list"
  | Call_kruskal "real list list"
  | Call_mannwhitneyu "real list" "real list"
  | Call_fisher_exact "int list list"
  | Call_chi2_contingency "int list list"
  | Print_spearman pystr pyfloat pyfloat pystr
  | Print_kw pystr pyfloat pyfloat pystr
  | Print_mwu pystr pyfloat pystr pystr
  | Print_fisher pystr pyfloat pyfloat
  | Print_chi2 pystr "nat \<times> nat" pyfloat int pyfloat
  | Print_text pystr

type_synonym 'a script = "event list \<times> (error + 'a)"

definition sreturn :: "'a \<Rightarrow> 'a script" where
  "sreturn x = ([], Inr x)"

definition sbind :: "'a script \<Rightarrow> ('a \<Rightarrow> 'b script) \<Rightarrow> 'b script" where
  "sbind m f =
     (case m of
        (es, Inl e) \<Rightarrow> (es, Inl e)
      | (es, Inr x) \<Rightarrow> (case f x of (es', r) \<Rightarrow> (es @ es', r)))"

definition emit :: "event \<Rightarrow> unit script" where
  "emit ev = ([ev], Inr ())"

definition call :: "event \<Rightarrow> error + 'a \<Rightarrow> 'a script" where
  "call ev r = ([ev], r)"

subsection \<open>analysis_2_spearman.py\<close>

text \<open>\<open>interpret\<close> of the source; the name is a keyword of Isabelle, hence the suffix.\<close>

definition interpret_rho :: "pyfloat \<Rightarrow> pyfloat \<Rightarrow> int \<Rightarrow> pystr" where
  "interpret_rho rho p n =
     (let sig = flt p lit_0_05;
          strength = (if fge (fabs rho) lit_0_7 then U ''strong''
                      else if fge (fabs rho) lit_0_4 then U ''moderate''
                      else U ''weak'');
          direction = (if fgt rho 0 then U ''positive'' else U ''negative'');
          sig_str = (if sig then U ''statistically significant''
                     else U ''not statistically significant'');
          caveat = (if \<not> sig then U '' ('' @ [9888] @ U '' n='' @ str_int n @
                                   U '': treat as indicative)''
                    else [])
      in strength @ U '' '' @ direction @ U '' correlation, '' @ sig_str @ caveat)"


definition PAIRS ::
  "((df_row \<Rightarrow> real option) \<times> (df_row \<Rightarrow> real option) \<times> pystr \<times> pystr) list" where
  "PAIRS =
     [(df_Q4_noise_rating, df_Q7_concentration,
       U ''Chain 1'' @ [8594] @ U ''2: Noise Level vs Concentration Impact'',
       U ''spearman_Q4_Q7.png''),
      (df_Q4_noise_rating, df_Q11_QoL,
       U ''Chain 2'' @ [8594] @ U ''3: Noise Level vs Quality of Life'',
       U ''spearman_Q4_Q11.png''),
      (df_Q8_air_quality, df_Q11_QoL,
       U ''Supporting: Air Quality vs Quality of Life'',
       U ''spearman_Q8_Q11.png''),
      (df_Q4_noise_rating, df_Q8_air_quality,
       U ''Co-location: Noise Level vs Air Quality'',
       U ''spearman_Q4_Q8.png'')]"


subsection \<open>analysis_3_kruskal_fisher.py\<close>

definition kw_interpret :: "pyfloat \<Rightarrow> int \<Rightarrow> int \<Rightarrow> pystr" where
  "kw_interpret p n_groups n_total =
     (let sig = flt p lit_0_05;
          caveat = (if n_total < 30
                    then U '' ('' @ [9888] @ U '' n='' @ str_int n_total @
                         U '', small subgroups '' @ [8212] @ U '' indicative only)''
                    else [])
      in (if sig then U ''Significant difference between groups''
          else U ''No significant difference'') @ caveat)"

text \<open>\<open>mwu_interpret\<close> gives the marker, and the parts its format string renders.\<close>

definition mwu_interpret :: "pyfloat \<Rightarrow> pystr \<Rightarrow> pystr \<Rightarrow> event" where
  "mwu_interpret p g1 g2 = Print_mwu (if flt p lit_0_05 then U ''*'' else U ''ns'') p g1 g2"

definition floor_order :: "pystr list" where
  "floor_order =
     [U ''Low Rise (Floors 1'' @ [8211] @ U ''5)'',
      U ''Mid Rise (Floors 6'' @ [8211] @ U ''10)'',
      U ''High Rise (Floors 11+)'']"

definition site_order :: "pystr list" where
  "site_order =
     [U ''Waterloo Centre'', U ''Cheng Yan Court'', U ''Albert Centre'',
      U ''Bras Basah Complex'']"

text \<open>\<open>df[df[key] == k][val].dropna().tolist()\<close>\<close>

definition select_values ::
  "dataframe \<Rightarrow> (df_row \<Rightarrow> pystr option) \<Rightarrow> pystr \<Rightarrow> (df_row \<Rightarrow> real option) \<Rightarrow> real list" where
  "select_values df key k val = List.map_filter val (filter (\<lambda>r. key r = Some k) df)"

definition floor_groups :: "dataframe \<Rightarrow> (pystr \<times> real list) list" where
  "floor_groups df =
     filter (\<lambda>(k, v). v \<noteq> [])
       (map (\<lambda>fl. (fl, select_values df df_floor_level fl df_Q4_noise_rating)) floor_order)"

definition site_noise_groups :: "dataframe \<Rightarrow> (pystr \<times> real list) list" where
  "site_noise_groups df =
     map (\<lambda>s. (s, select_values df df_site s df_Q4_noise_rating)) site_order"

definition site_qol_groups :: "dataframe \<Rightarrow> (pystr \<times> real list) list" where
  "site_qol_groups df =
     map (\<lambda>s. (s, select_values df df_site s df_Q11_QoL)) site_order"

text \<open>\<open>itertools.combinations(xs, 2)\<close>\<close>

fun combinations2 :: "'a list \<Rightarrow> ('a \<times> 'a) list" where
  "combinations2 [] = []"
| "combinations2 (x # xs) = map (Pair x) xs @ combinations2 xs"

definition pairs :: "(pystr \<times> pystr) list" where
  "pairs = combinations2 site_order"

text \<open>One Kruskal-Wallis test: the call on the values of the groups, and its line.\<close>

definition kw_test ::
  "scipy_stats \<Rightarrow> pystr \<Rightarrow> (pystr \<times> real list) list \<Rightarrow> int \<Rightarrow> (pyfloat \<times> pyfloat) script" where
  "kw_test S heading groups n_groups =
     sbind (call (Call_kruskal (map snd groups)) (kruskal S (map snd groups))) (\<lambda>(stat, p).
     let n = int (sum_list (map (\<lambda>(k, v). length v) groups))
     in sbind (emit (Print_kw heading stat p (kw_interpret p n_groups n))) (\<lambda>_.
        sreturn (stat, p)))"

text \<open>The post-hoc loop over \<open>pairs\<close>; \<open>groups[s]\<close> raises \<open>KeyError\<close> on a
  missing key.\<close>

fun posthoc ::
  "scipy_stats \<Rightarrow> (pystr \<times> real list) list \<Rightarrow> (pystr \<times> pystr) list \<Rightarrow> unit script" where
  "posthoc S groups [] = sreturn ()"
| "posthoc S groups ((s1, s2) # ps) =
     (case map_of groups s1 of
        None \<Rightarrow> ([], Inl KeyError)
      | Some g1 \<Rightarrow>
          (case map_of groups s2 of
             None \<Rightarrow> ([], Inl KeyError)
           | Some g2 \<Rightarrow>
               sbind (if length g1 \<ge> 2 \<and> length g2 \<ge> 2
                      then sbind (call (Call_mannwhitneyu g1 g2) (mannwhitneyu S g1 g2))
                             (\<lambda>(u, p_mwu). emit (mwu_interpret p_mwu s1 s2))
                      else sreturn ())
                 (\<lambda>_. posthoc S groups ps)))"

text \<open>
  The Kruskal-Wallis part of the script, from test A to the second post-hoc loop.
  Nothing stands between the tests and the post-hoc loops but plotting.
\<close>

definition kruskal_section :: "scipy_stats \<Rightarrow> dataframe \<Rightarrow> unit script" where
  "kruskal_section S df =
     sbind (kw_test S (U ''A. Floor Level '' @ [215] @ U '' Q4 Noise Rating'')
              (floor_groups df) (int (length (floor_groups df)))) (\<lambda>(stat_a, p_a).
     sbind (kw_test S (U ''B. Site '' @ [215] @ U '' Q4 Noise Rating'')
              (site_noise_groups df) 4) (\<lambda>(stat_b, p_b).
     sbind (kw_test S (U ''C. Site '' @ [215] @ U '' Q11 QoL'')
              (site_qol_groups df) 4) (\<lambda>(stat_c, p_c).
     sbind (posthoc S (site_noise_groups df) pairs) (\<lambda>_.
     posthoc S (site_qol_groups df) pairs))))"

text \<open>
  \<open>run_fishers\<close>: \<open>ct_arr\<close> is the table of counts as a list of rows, \<open>shape\<close> its
  numbers of rows and columns. The last printed line of the larger-table branch is
  \<open>chi2_caution\<close>.
\<close>

definition shape :: "int list list \<Rightarrow> nat \<times> nat" where
  "shape ct_arr = (length ct_arr, (case ct_arr of [] \<Rightarrow> 0 | r # _ \<Rightarrow> length r))"

definition chi2_caution :: pystr where
  "chi2_caution =
     U ''   '' @ [9888] @ U ''  Table > 2'' @ [215] @ U ''2: Chi'' @ [178] @
     U '' used; interpret with caution (small n).''"

definition run_fishers ::
  "scipy_stats \<Rightarrow> int list list \<Rightarrow> pystr \<Rightarrow> (pyfloat option \<times> pyfloat) script" where
  "run_fishers S ct_arr label =
     sbind (if shape ct_arr = (2, 2)
            then sbind (call (Call_fisher_exact ct_arr) (fisher_exact S ct_arr))
                   (\<lambda>(oddsratio, p).
                 sbind (emit (Print_fisher label p oddsratio)) (\<lambda>_.
                 sreturn (Some oddsratio, p)))
            else sbind (call (Call_chi2_contingency ct_arr) (chi2_contingency S ct_arr))
                   (\<lambda>(chi2, p, dof).
                 sbind (emit (Print_chi2 label (shape ct_arr) chi2 dof p)) (\<lambda>_.
                 sbind (emit (Print_text chi2_caution)) (\<lambda>_.
                 sreturn (None, p)))))
       (\<lambda>(oddsratio, p).
     sbind (emit (Print_text (U ''   '' @ [8594] @ U '' '' @
                    (if flt p lit_0_05 then U ''SIGNIFICANT '' @ [10003]
                     else U ''not significant'')))) (\<lambda>_.
     sreturn (oddsratio, p)))"

subsection \<open>Observations on the output and sample data\<close>

text \<open>
  Both advisory caveats, and no other part of an interpretation, carry the warning
  sign U+26A0 (9888): a text has a caveat attached when the sign occurs in it.
\<close>

definition has_caveat :: "pystr \<Rightarrow> bool" where
  "has_caveat s \<longleftrightarrow> 9888 \<in> set s"

text \<open>
  Sample data: a stand-in for the library whose every function returns the same pair,
  one whose two contingency tests return given results, rows of a cleaned table, a table whose respondents all live at one site, and a
  table with two respondents at each of the four sites.
\<close>

definition scipy_const :: "pyfloat \<Rightarrow> pyfloat \<Rightarrow> scipy_stats" where
  "scipy_const a b =
     \<lparr> spearmanr = (\<lambda>xs ys. Inr (a, b)),
       kruskal = (\<lambda>gs. Inr (a, b)),
       mannwhitneyu = (\<lambda>g1 g2. Inr (a, b)),
       fisher_exact = (\<lambda>t. Inr (a, b)),
       chi2_contingency = (\<lambda>t. Inr (a, b, 0)) \<rparr>"

definition scipy_contingency ::
  "pyfloat \<times> pyfloat \<Rightarrow> pyfloat \<times> pyfloat \<times> int \<Rightarrow> scipy_stats" where
  "scipy_contingency f c =
     (scipy_const NaN NaN)\<lparr> fisher_exact := (\<lambda>t. Inr f), chi2_contingency := (\<lambda>t. Inr c) \<rparr>"

definition mk_row :: "nat \<Rightarrow> nat \<Rightarrow> real \<Rightarrow> real \<Rightarrow> df_row" where
  "mk_row s fl q4 q11 =
     \<lparr> df_site = Some (site_order ! s), df_floor_level = Some (floor_order ! fl),
       df_Q4_noise_rating = Some q4, df_Q7_concentration = Some (q4 + 2),
       df_Q8_air_quality = None, df_Q11_QoL = Some q11 \<rparr>"

definition df_one_site :: dataframe where
  "df_one_site = [mk_row 0 0 1 1, mk_row 0 1 2 2]"

definition df_balanced :: dataframe where
  "df_balanced =
     [mk_row 0 0 1 1, mk_row 0 1 2 2, mk_row 1 0 1 1, mk_row 1 1 2 2,
      mk_row 2 0 1 1, mk_row 2 1 2 2, mk_row 3 0 1 1, mk_row 3 1 2 2]"

definition is_mwu_call :: "event \<Rightarrow> bool" where
  "is_mwu_call ev = (case ev of Call_mannwhitneyu g1 g2 \<Rightarrow> True | _ \<Rightarrow> False)"

section \<open>Properties of the encoder\<close>

lemmas str_eval = U_def strip_def lower_def lower_cp_def isspace_cp_def isdecimal_cp_def
  isdigit_cp_def isdigit_def in_ranges_def decimal_ranges_def other_digit_ranges_def
  digit_value_def int_strip_def int_isspace_cp_def

subsection \<open>The digit tables\<close>

lemma in_ranges_lower:
  "list_all (\<lambda>(a, b). lo \<le> a) rs \<Longrightarrow> in_ranges c rs \<Longrightarrow> lo \<le> c"
  by (fastforce simp: in_ranges_def list_all_iff list_ex_iff)

lemma in_ranges_outside:
  "list_all (\<lambda>(a, b). b < lo \<or> hi < a) rs \<Longrightarrow> lo \<le> c \<Longrightarrow> c \<le> hi \<Longrightarrow> \<not> in_ranges c rs"
  by (fastforce simp: in_ranges_def list_all_iff list_ex_iff)

lemma decimal_imp_digit: "isdecimal_cp c \<Longrightarrow> isdigit_cp c"
  by (simp add: isdigit_cp_def)

lemma digit_ge_48: "isdigit_cp c \<Longrightarrow> 48 \<le> c"
proof -
  assume d: "isdigit_cp c"
  have 1: "list_all (\<lambda>(a, b). 48 \<le> a) decimal_ranges" by (simp add: decimal_ranges_def)
  have 2: "list_all (\<lambda>(a, b). 48 \<le> a) other_digit_ranges"
    by (simp add: other_digit_ranges_def)
  from d 1 2 show ?thesis
    by (auto simp: isdigit_cp_def isdecimal_cp_def dest: in_ranges_lower)
qed

lemma no_digit_between:
  assumes "list_all (\<lambda>(a, b). b < lo \<or> hi < a) decimal_ranges"
    and "list_all (\<lambda>(a, b). b < lo \<or> hi < a) other_digit_ranges"
    and "lo \<le> c" "c \<le> hi"
  shows "\<not> isdigit_cp c"
  using assms by (auto simp: isdigit_cp_def isdecimal_cp_def dest: in_ranges_outside)

lemma no_digit_58_177: "58 \<le> c \<Longrightarrow> c \<le> 177 \<Longrightarrow> \<not> isdigit_cp c"
  by (rule no_digit_between[where lo = 58 and hi = 177])
     (simp_all add: decimal_ranges_def other_digit_ranges_def)

lemma no_digit_5760: "\<not> isdigit_cp 5760"
  by (rule no_digit_between[where lo = 5760 and hi = 5760])
     (simp_all add: decimal_ranges_def other_digit_ranges_def)

lemma no_digit_8192_8287: "8192 \<le> c \<Longrightarrow> c \<le> 8287 \<Longrightarrow> \<not> isdigit_cp c"
  by (rule no_digit_between[where lo = 8192 and hi = 8287])
     (simp_all add: decimal_ranges_def other_digit_ranges_def)

lemma no_digit_10131_42527: "10131 \<le> c \<Longrightarrow> c \<le> 42527 \<Longrightarrow> \<not> isdigit_cp c"
  by (rule no_digit_between[where lo = 10131 and hi = 42527])
     (simp_all add: decimal_ranges_def other_digit_ranges_def)

lemma digit_not_space: "isdigit_cp c \<Longrightarrow> \<not> isspace_cp c"
proof
  assume d: "isdigit_cp c" and s: "isspace_cp c"
  from d have "48 \<le> c" by (rule digit_ge_48)
  with s have "c = 133 \<or> c = 160 \<or> c = 5760 \<or> (8192 \<le> c \<and> c \<le> 8287) \<or> c = 12288"
    by (auto simp: isspace_cp_def)
  with d show False
    using no_digit_58_177[of c] no_digit_5760 no_digit_8192_8287[of c]
      no_digit_10131_42527[of c] by auto
qed

lemma decimal_not_space: "isdecimal_cp c \<Longrightarrow> \<not> isspace_cp c"
  by (auto dest: decimal_imp_digit digit_not_space)

lemma digit_not_sign: "isdigit_cp c \<Longrightarrow> c \<noteq> 43 \<and> c \<noteq> 45 \<and> c \<noteq> 95"
  using digit_ge_48[of c] no_digit_58_177[of c] by auto

lemma isdecimal_ascii: "c < 128 \<Longrightarrow> isdecimal_cp c \<longleftrightarrow> 48 \<le> c \<and> c \<le> 57"
  using no_digit_58_177[of c] digit_ge_48[of c] decimal_imp_digit[of c]
  by (auto simp: isdecimal_cp_def in_ranges_def decimal_ranges_def)

lemma digit_value_ascii: "48 \<le> c \<Longrightarrow> c \<le> 57 \<Longrightarrow> digit_value c = c - 48"
  by (simp add: digit_value_def decimal_ranges_def)

subsection \<open>Text lemmas\<close>

lemma trim_idem_ends:
  assumes "s \<noteq> []" "\<not> P (hd s)" "\<not> P (last s)"
  shows "rev (dropWhile P (rev (dropWhile P s))) = s"
proof -
  from assms have a: "dropWhile P s = s" by (cases s) auto
  from assms have "rev s \<noteq> []" "\<not> P (hd (rev s))" by (auto simp: hd_rev)
  then have "dropWhile P (rev s) = rev s" by (cases "rev s") auto
  with a show ?thesis by simp
qed

lemma strip_idem_ends:
  assumes "s \<noteq> []" "\<not> isspace_cp (hd s)" "\<not> isspace_cp (last s)"
  shows "strip s = s"
  unfolding strip_def using assms by (rule trim_idem_ends)

lemma strip_Nil: "strip [] = []" by (simp add: strip_def)

lemma strip_isdigit: "list_all isdigit_cp s \<Longrightarrow> strip s = s"
proof (cases "s = []")
  case True then show ?thesis by (simp add: strip_Nil)
next
  case False
  assume a: "list_all isdigit_cp s"
  from False a have "isdigit_cp (hd s)" "isdigit_cp (last s)"
    by (auto simp: list_all_iff)
  then show ?thesis using False by (intro strip_idem_ends) (auto dest: digit_not_space)
qed

lemma int_strip_isdigit: "list_all isdigit_cp s \<Longrightarrow> int_strip s = s"
proof (cases "s = []")
  case True then show ?thesis by (simp add: int_strip_def)
next
  case False
  assume a: "list_all isdigit_cp s"
  from False a have "isdigit_cp (hd s)" "isdigit_cp (last s)"
    by (auto simp: list_all_iff)
  then have "\<not> int_isspace_cp (hd s)" "\<not> int_isspace_cp (last s)"
    by (auto simp: int_isspace_cp_def dest: digit_not_space)
  with False show ?thesis unfolding int_strip_def by (rule trim_idem_ends)
qed

lemma decimal_all_digit: "list_all isdecimal_cp s \<Longrightarrow> list_all isdigit_cp s"
  by (auto simp: list_all_iff dest: decimal_imp_digit)

lemma strip_decimal: "list_all isdecimal_cp s \<Longrightarrow> strip s = s"
  by (rule strip_isdigit) (rule decimal_all_digit)

lemma int_digits_decimal:
  "list_all isdecimal_cp cs \<Longrightarrow>
     int_digits acc cs = Some (foldl (\<lambda>a c. 10 * a + digit_value c) acc cs)"
proof (induction acc cs rule: int_digits.induct)
  case (3 acc c d cs)
  then have "isdigit_cp c" by (simp add: decimal_imp_digit)
  then have "c \<noteq> 95" using digit_not_sign by blast
  with 3 show ?case by simp
qed simp_all

lemma int_digits_not_decimal:
  "list_all isdigit_cp cs \<Longrightarrow> \<not> list_all isdecimal_cp cs \<Longrightarrow> int_digits acc cs = None"
proof (induction acc cs rule: int_digits.induct)
  case (3 acc c d cs)
  then have "isdigit_cp c" by simp
  then have "c \<noteq> 95" using digit_not_sign by blast
  with 3 show ?case by auto
qed simp_all

lemma int_unsigned_decimal:
  "s \<noteq> [] \<Longrightarrow> list_all isdecimal_cp s \<Longrightarrow> int_unsigned s = Some (decimal_value s)"
  by (cases s) (simp_all add: int_unsigned_def decimal_value_def int_digits_decimal)

lemma int_unsigned_not_decimal:
  "list_all isdigit_cp s \<Longrightarrow> \<not> list_all isdecimal_cp s \<Longrightarrow> int_unsigned s = None"
  by (cases s) (auto simp: int_unsigned_def int_digits_not_decimal)

lemma py_int_isdigit:
  assumes "isdigit s"
  shows "py_int s = (case int_unsigned s of None \<Rightarrow> Inl ValueError | Some v \<Rightarrow> Inr (int v))"
proof -
  from assms have all: "list_all isdigit_cp s" and ne: "s \<noteq> []" by (simp_all add: isdigit_def)
  have st: "int_strip s = s" using all by (rule int_strip_isdigit)
  obtain c cs where s: "s = c # cs" using ne by (cases s) auto
  with all have "isdigit_cp c" by simp
  then have "c \<noteq> 43" "c \<noteq> 45" using digit_not_sign by blast+
  then have "(case s of [] \<Rightarrow> [] | c # cs \<Rightarrow> if c = 43 \<or> c = 45 then cs else s) = s"
    "(case s of [] \<Rightarrow> False | c # _ \<Rightarrow> c = 45) = False" using s by simp_all
  then show ?thesis by (simp add: py_int_def st Let_def split: option.splits)
qed

lemma isdigit_decimal: "s \<noteq> [] \<Longrightarrow> list_all isdecimal_cp s \<Longrightarrow> isdigit s"
  by (simp add: isdigit_def decimal_all_digit)

lemma py_int_decimal:
  assumes "s \<noteq> []" "list_all isdecimal_cp s"
  shows "py_int s = Inr (int (decimal_value s))"
  by (simp add: py_int_isdigit[OF isdigit_decimal[OF assms]] int_unsigned_decimal[OF assms])

lemma rating_decimal:
  assumes "s \<noteq> []" "list_all isdecimal_cp s"
  shows "rating s = Inr (Some (int (decimal_value s)))"
  by (simp add: rating_def isdigit_decimal[OF assms] py_int_decimal[OF assms])

lemma rating_not_digit: "\<not> isdigit s \<Longrightarrow> rating s = Inr None"
  by (simp add: rating_def)

text \<open>
  A text of digits that are not all decimal, such as a superscript two, passes the
  guard and makes \<open>int\<close> raise.
\<close>

lemma rating_digit_not_decimal:
  "isdigit s \<Longrightarrow> \<not> list_all isdecimal_cp s \<Longrightarrow> rating s = Inl ValueError"
  by (simp add: rating_def py_int_isdigit int_unsigned_not_decimal isdigit_def)

lemma rating_nonneg: "rating s = Inr (Some n) \<Longrightarrow> 0 \<le> n"
  by (auto simp: rating_def py_int_isdigit split: if_splits option.splits sum.splits)

lemma rating_Some_decimal:
  assumes "rating s = Inr (Some n)"
  shows "s \<noteq> [] \<and> list_all isdecimal_cp s \<and> n = int (decimal_value s)"
proof -
  from assms have d: "isdigit s" by (auto simp: rating_def split: if_splits)
  have dec: "list_all isdecimal_cp s"
  proof (rule ccontr)
    assume "\<not> list_all isdecimal_cp s"
    with d have "rating s = Inl ValueError" by (rule rating_digit_not_decimal)
    with assms show False by simp
  qed
  from d have ne: "s \<noteq> []" by (simp add: isdigit_def)
  from rating_decimal[OF ne dec] assms show ?thesis using ne dec by simp
qed

lemma decimal_value_snoc: "decimal_value (xs @ [c]) = 10 * decimal_value xs + digit_value c"
  by (simp add: decimal_value_def)

lemma digits_ascii: "c \<in> set (digits n) \<Longrightarrow> 48 \<le> c \<and> c \<le> 57"
proof (induction n arbitrary: c rule: digits.induct)
  case (1 n)
  show ?case
  proof (cases "n < 10")
    case True
    with 1(2) show ?thesis by (subst (asm) digits.simps) simp
  next
    case False
    from 1(2) False have "c \<in> set (digits (n div 10)) \<or> c = 48 + n mod 10"
      by (subst (asm) digits.simps) auto
    then show ?thesis
    proof
      assume "c \<in> set (digits (n div 10))"
      with 1(1)[OF False] show ?thesis by blast
    next
      assume "c = 48 + n mod 10"
      moreover have "n mod 10 < 10" by simp
      ultimately show ?thesis by linarith
    qed
  qed
qed

lemma isdecimal_ascii_I: "48 \<le> c \<Longrightarrow> c \<le> 57 \<Longrightarrow> isdecimal_cp c"
  using isdecimal_ascii[of c] by simp

lemma digits_decimal: "list_all isdecimal_cp (digits n)"
  by (auto simp: list_all_iff dest!: digits_ascii intro: isdecimal_ascii_I)

lemma digits_nonempty: "digits n \<noteq> []"
  by (subst digits.simps) simp

lemma decimal_value_digits: "decimal_value (digits n) = n"
proof (induction n rule: digits.induct)
  case (1 n)
  show ?case
  proof (cases "n < 10")
    case True
    then show ?thesis by (subst digits.simps) (simp add: decimal_value_def digit_value_ascii)
  next
    case False
    with 1 have "decimal_value (digits (n div 10)) = n div 10" by simp
    moreover have "digit_value (48 + n mod 10) = n mod 10"
      by (subst digit_value_ascii) (simp_all, linarith?)
    ultimately show ?thesis using False
      by (subst digits.simps) (simp add: decimal_value_snoc)
  qed
qed

lemma rating_digits: "rating (digits n) = Inr (Some (int n))"
  using rating_decimal[OF digits_nonempty digits_decimal, of n] by (simp add: decimal_value_digits)


lemma dropWhile_all: "list_all P xs \<Longrightarrow> dropWhile P xs = []"
  by (induction xs) auto

lemma strip_padding:
  assumes a: "list_all isspace_cp a" and b: "list_all isspace_cp b"
  shows "strip (a @ s @ b) = strip s"
proof -
  have 1: "dropWhile isspace_cp (a @ s @ b) = dropWhile isspace_cp (s @ b)"
    using a by (intro dropWhile_append2) (simp add: list_all_iff)
  have rb: "list_all isspace_cp (rev b)" using b by (simp add: list_all_iff)
  show ?thesis
  proof (cases "list_all isspace_cp s")
    case True
    with b have "list_all isspace_cp (s @ b)" by simp
    then have e1: "dropWhile isspace_cp (s @ b) = []" by (rule dropWhile_all)
    have e2: "dropWhile isspace_cp s = []" using True by (rule dropWhile_all)
    show ?thesis by (simp only: strip_def 1 e1 e2)
  next
    case False
    then obtain x where "x \<in> set s" "\<not> isspace_cp x" by (auto simp: list_all_iff)
    then have 2: "dropWhile isspace_cp (s @ b) = dropWhile isspace_cp s @ b"
      by (rule dropWhile_append1)
    have "dropWhile isspace_cp (rev b @ rev (dropWhile isspace_cp s)) =
          dropWhile isspace_cp (rev (dropWhile isspace_cp s))"
      using rb by (intro dropWhile_append2) (simp add: list_all_iff)
    then show ?thesis unfolding strip_def 1 2 by simp
  qed
qed

lemma last_dropWhile: "dropWhile P xs \<noteq> [] \<Longrightarrow> last (dropWhile P xs) = last xs"
  by (induction xs) auto

lemma strip_ends:
  assumes "strip s \<noteq> []"
  shows "\<not> isspace_cp (hd (strip s)) \<and> \<not> isspace_cp (last (strip s))"
proof -
  define d where "d = dropWhile isspace_cp s"
  define t where "t = dropWhile isspace_cp (rev d)"
  have st: "strip s = rev t" by (simp add: strip_def d_def t_def)
  from assms st have t: "t \<noteq> []" by simp
  then have d: "d \<noteq> []" by (auto simp: t_def)
  have h: "\<not> isspace_cp (hd t)" using t unfolding t_def by (rule hd_dropWhile)
  have hd: "\<not> isspace_cp (hd d)" using d unfolding d_def by (rule hd_dropWhile)
  have "last t = last (rev d)" using t unfolding t_def by (rule last_dropWhile)
  also have "\<dots> = hd d" using d by (simp add: last_rev)
  finally have l: "last t = hd d" .
  have "hd (rev t) = last t" "last (rev t) = hd t" using t by (simp_all add: hd_rev last_rev)
  with h hd l st show ?thesis by simp
qed

lemma strip_strip: "strip (strip s) = strip s"
proof (cases "strip s = []")
  case True
  then show ?thesis by (simp add: strip_Nil)
next
  case False
  with strip_ends[OF False] show ?thesis by (intro strip_idem_ends) auto
qed

lemma encode_row_InrD:
  assumes "encode_row idx row = Inr r"
  shows "\<exists>s a d f q4 q5 q6 q7 q8 q9 q10 q11.
     cell row Col12_site = Inr s \<and> cell row Col1_age = Inr a \<and>
     cell row Col2_duration = Inr d \<and> cell row Col3_floor = Inr f \<and>
     cell row Col4_noise = Inr q4 \<and> cell row Col5_sources = Inr q5 \<and>
     cell row Col6_spike = Inr q6 \<and> cell row Col7_concentration = Inr q7 \<and>
     cell row Col8_air = Inr q8 \<and> cell row Col9_convenience = Inr q9 \<and>
     cell row Col10_community = Inr q10 \<and> cell row Col11_qol = Inr q11 \<and>
     rating q4 = Inr (Q4_noise_rating r) \<and> rating q8 = Inr (Q8_air_quality r) \<and>
     respondent_id r = idx \<and>
     age_numeric r = encode a AGE_MAP \<and> residency_numeric r = encode d DURATION_MAP \<and>
     floor_numeric r = encode f FLOOR_MAP \<and> Q6_noise_spike r = noise_spike q6 \<and>
     Q7_concentration r = encode q7 Q7_MAP \<and> Q10_community r = encode q10 COMMUNITY_MAP \<and>
     Q11_QoL r = encode q11 Q11_MAP"
  using assms by (auto simp: encode_row_def bind_def split: sum.splits)

lemma cell_Some: "row c = Some (Some v) \<Longrightarrow> cell row c = Inr (strip v)"
  by (simp add: cell_def)

lemma encode_codes: "encode val mapping = Some n \<Longrightarrow> n \<in> snd ` set mapping"
  by (auto simp: encode_def encode_default_def split: option.splits dest!: map_of_SomeD intro: rev_image_eqI)

subsection \<open>Rows\<close>

lemmas map_eval = AGE_MAP_def DURATION_MAP_def FLOOR_MAP_def Q7_MAP_def COMMUNITY_MAP_def
  Q11_MAP_def

lemma encode_blank: "encode [] AGE_MAP = None" "encode [] DURATION_MAP = None"
  "encode [] FLOOR_MAP = None" "encode [] Q7_MAP = None" "encode [] COMMUNITY_MAP = None"
  "encode [] Q11_MAP = None"
  by (simp_all add: encode_def encode_default_def map_eval str_eval)

lemma noise_spike_blank: "noise_spike [] = 1"
  by (simp add: noise_spike_def str_eval)

lemma rating_blank: "rating [] = Inr None"
  by (simp add: rating_def isdigit_def)

lemma encode_row_sample:
  assumes "rating (strip v) = Inr q"
  shows "encode_row 1 (blank_row(Col4_noise := Some (Some v))) = Inr (sample_clean q)"
  using assms
  by (simp add: encode_row_def bind_def cell_def blank_row_def strip_Nil encode_blank
      noise_spike_blank rating_blank sample_clean_def)


subsection \<open>Claims about the encoder\<close>

text \<open>
  C10. When the raw file has a header row and no respondent row, the reader yields no
  row, \<open>rows_out\<close> stays empty and \<open>rows_out[0]\<close> raises \<open>IndexError\<close>, which nothing
  catches; no run returns a header with an empty list of rows.
\<close>

theorem main_no_rows_IndexError:
  "main [] = Inl IndexError \<and> main reader \<noteq> Inr (header, [])"
  by (auto simp: main_def bind_def split: sum.splits list.splits)

lemma lower_cp_n_o:
  "lower_cp a = 110 \<longleftrightarrow> a = 78 \<or> a = 110" "lower_cp b = 111 \<longleftrightarrow> b = 79 \<or> b = 111"
  by (auto simp: lower_cp_def)

lemma lower_is_no:
  "lower s = U ''no'' \<longleftrightarrow> (\<exists>a b. s = [a, b] \<and> (a = 78 \<or> a = 110) \<and> (b = 79 \<or> b = 111))"
proof -
  have "lower s = [110, 111] \<longleftrightarrow> (\<exists>a b. s = [a, b] \<and> lower_cp a = 110 \<and> lower_cp b = 111)"
    by (cases s; cases "tl s"; cases "tl (tl s)") (auto simp: lower_def)
  then show ?thesis by (simp add: U_def lower_cp_n_o)
qed

text \<open>
  C7. The noise-spike answer is encoded as 0 when the trimmed, lower-cased answer is
  \<open>"no"\<close> and as 1 for every other answer; the blank answer is encoded as 1. The
  answers encoded as 0 are those whose trimmed text is N or n followed by O or o.
\<close>

theorem noise_spike_no_only:
  "(lower (strip val) = U ''no'' \<longrightarrow> noise_spike val = 0) \<and>
   (lower (strip val) \<noteq> U ''no'' \<longrightarrow> noise_spike val = 1) \<and>
   noise_spike [] = 1 \<and>
   (noise_spike val = 0 \<longleftrightarrow>
      (\<exists>a b. strip val = [a, b] \<and> (a = 78 \<or> a = 110) \<and> (b = 79 \<or> b = 111)))"
proof -
  have "noise_spike val = 0 \<longleftrightarrow> lower (strip val) = U ''no''"
    by (simp add: noise_spike_def)
  then show ?thesis
    by (simp add: lower_is_no noise_spike_blank) (simp add: noise_spike_def lower_is_no)
qed

theorem noise_spike_no_only_witness:
  "lower (strip (U '' No '')) = U ''no'' \<and> noise_spike (U '' No '') = 0 \<and>
   lower (strip (U ''yes'')) \<noteq> U ''no'' \<and> noise_spike (U ''yes'') = 1"
proof -
  have a: "lower (strip (U '' No '')) = U ''no''" by (simp add: str_eval)
  have b: "lower (strip (U ''yes'')) \<noteq> U ''no''" by (simp add: str_eval)
  from a b noise_spike_no_only[of "U '' No ''"] noise_spike_no_only[of "U ''yes''"]
  show ?thesis by blast
qed

text \<open>
  C8. \<open>encode\<close> looks the trimmed, lower-cased text up in the table: a key yields its
  code, a text that is no key yields \<open>None\<close>; two texts with the same normal form are
  encoded alike, so surrounding whitespace and case do not matter
  (\<open>encode(" YES ") == encode("yes")\<close>); the empty string is a key of no table.
\<close>

theorem encode_exact_lookup:
  "(map_of mapping (lower (strip val)) = Some code \<longrightarrow> encode val mapping = Some code) \<and>
   (lower (strip val) \<notin> fst ` set mapping \<longrightarrow> encode val mapping = None) \<and>
   (lower (strip val') = lower (strip val) \<longrightarrow> encode val' mapping = encode val mapping) \<and>
   (list_all isspace_cp a \<and> list_all isspace_cp b \<longrightarrow>
      encode (a @ val @ b) mapping = encode val mapping) \<and>
   encode (U '' YES '') COMMUNITY_MAP = encode (U ''yes'') COMMUNITY_MAP \<and>
   encode [] AGE_MAP = None \<and> encode [] DURATION_MAP = None \<and> encode [] FLOOR_MAP = None \<and>
   encode [] Q7_MAP = None \<and> encode [] COMMUNITY_MAP = None \<and> encode [] Q11_MAP = None"
proof -
  have 1: "map_of mapping (lower (strip val)) = Some code \<longrightarrow> encode val mapping = Some code"
    by (simp add: encode_def encode_default_def)
  have 2: "lower (strip val) \<notin> fst ` set mapping \<longrightarrow> encode val mapping = None"
    by (simp add: encode_def encode_default_def map_of_eq_None_iff[symmetric] del: map_of_eq_None_iff)
  have 3: "lower (strip val') = lower (strip val) \<longrightarrow> encode val' mapping = encode val mapping"
    by (simp add: encode_def encode_default_def)
  have 4: "list_all isspace_cp a \<and> list_all isspace_cp b \<longrightarrow>
      encode (a @ val @ b) mapping = encode val mapping"
    by (simp add: encode_def encode_default_def strip_padding)
  have 5: "encode (U '' YES '') COMMUNITY_MAP = encode (U ''yes'') COMMUNITY_MAP"
    by (simp add: encode_def encode_default_def str_eval)
  from 1 2 3 4 5 encode_blank show ?thesis by blast
qed

theorem encode_exact_lookup_witness:
  "map_of COMMUNITY_MAP (lower (strip (U '' Maybe ''))) = Some 1 \<and>
   encode (U '' Maybe '') COMMUNITY_MAP = Some 1 \<and>
   lower (strip (U ''ye'')) \<notin> fst ` set COMMUNITY_MAP \<and> encode (U ''ye'') COMMUNITY_MAP = None"
proof -
  have a: "map_of COMMUNITY_MAP (lower (strip (U '' Maybe ''))) = Some 1"
    by (simp add: COMMUNITY_MAP_def str_eval)
  have b: "lower (strip (U ''ye'')) \<notin> fst ` set COMMUNITY_MAP"
    by (simp add: COMMUNITY_MAP_def str_eval)
  from a b encode_exact_lookup[of COMMUNITY_MAP "U '' Maybe ''" 1]
    encode_exact_lookup[of COMMUNITY_MAP "U ''ye''"]
  show ?thesis by blast
qed

text \<open>
  The raw answer \<open>"+7"\<close> parses as the integer 7, and its noise rating is missing:
  the guard \<open>isdigit\<close> refuses the sign.
\<close>

theorem rating_signed_counterexample:
  "py_int (U ''+7'') = Inr 7 \<and>
   encode_row 1 (blank_row(Col4_noise := Some (Some (U ''+7'')))) = Inr (sample_clean None)"
proof -
  have "py_int (U ''+7'') = Inr 7"
    by (simp add: py_int_def int_unsigned_def str_eval)
  moreover have "rating (strip (U ''+7'')) = Inr None"
    by (simp add: rating_def str_eval)
  ultimately show ?thesis by (simp add: encode_row_sample)
qed

text \<open>
  C5 (amended). For the noise rating and the air quality, the field is the integer
  that \<open>int\<close> reads from the trimmed raw text whenever that text is a non-empty
  string of decimal digits, of any script, and it is missing whenever the trimmed
  text is empty or holds a character that \<open>isdigit\<close> refuses: a sign, a space, an
  underscore, a letter, a dash. A signed integer string is therefore missing.
\<close>

theorem rating_digit_strings:
  assumes "encode_row idx row = Inr r"
    and "row Col4_noise = Some (Some v4)" and "row Col8_air = Some (Some v8)"
  shows "(strip v4 \<noteq> [] \<and> list_all isdecimal_cp (strip v4) \<longrightarrow>
            Q4_noise_rating r = Some (int (decimal_value (strip v4))) \<and>
            py_int (strip v4) = Inr (int (decimal_value (strip v4)))) \<and>
         (\<not> isdigit (strip v4) \<longrightarrow> Q4_noise_rating r = None) \<and>
         (strip v8 \<noteq> [] \<and> list_all isdecimal_cp (strip v8) \<longrightarrow>
            Q8_air_quality r = Some (int (decimal_value (strip v8))) \<and>
            py_int (strip v8) = Inr (int (decimal_value (strip v8)))) \<and>
         (\<not> isdigit (strip v8) \<longrightarrow> Q8_air_quality r = None)"
proof -
  from encode_row_InrD[OF assms(1)] assms(2,3)
  have r4: "rating (strip v4) = Inr (Q4_noise_rating r)"
    and r8: "rating (strip v8) = Inr (Q8_air_quality r)"
    by (auto simp: cell_def)
  have dec: "\<And>v. strip v \<noteq> [] \<Longrightarrow> list_all isdecimal_cp (strip v) \<Longrightarrow>
      rating (strip v) = Inr (Some (int (decimal_value (strip v)))) \<and>
      py_int (strip v) = Inr (int (decimal_value (strip v)))"
    using rating_decimal py_int_decimal by blast
  have non: "\<And>v. \<not> isdigit (strip v) \<Longrightarrow> rating (strip v) = Inr None"
    by (rule rating_not_digit)
  show ?thesis using r4 r8 dec[of v4] dec[of v8] non[of v4] non[of v8] by auto
qed

theorem rating_digit_strings_witness:
  "encode_row 1 (blank_row(Col4_noise := Some (Some [32, 1635, 55]),
                           Col8_air := Some (Some (U ''-3''))))
     = Inr (sample_clean (Some 37)) \<and>
   strip [32, 1635, 55] \<noteq> [] \<and> list_all isdecimal_cp (strip [32, 1635, 55]) \<and>
   Q4_noise_rating (sample_clean (Some 37)) = Some (int (decimal_value (strip [32, 1635, 55]))) \<and>
   py_int (strip [32, 1635, 55]) = Inr 37 \<and>
   \<not> isdigit (strip (U ''-3'')) \<and>
   Q8_air_quality (sample_clean (Some 37)) = None"
proof -
  let ?row = "blank_row(Col4_noise := Some (Some [32, 1635, 55]),
                        Col8_air := Some (Some (U ''-3'')))"
  have s7: "strip [32, 1635, 55] = [1635, 55]" by (simp add: str_eval)
  have s3: "strip (U ''-3'') = [45, 51]" by (simp add: str_eval)
  have r7: "rating [1635, 55] = Inr (Some 37)"
    by (simp add: rating_def py_int_def int_unsigned_def str_eval)
  have r3: "rating [45, 51] = Inr None" by (simp add: rating_def str_eval)
  have e: "encode_row 1 ?row = Inr (sample_clean (Some 37))"
    by (simp add: encode_row_def bind_def cell_def blank_row_def strip_Nil encode_blank
      noise_spike_blank rating_blank sample_clean_def s7 s3 r7 r3)
  have h4: "?row Col4_noise = Some (Some [32, 1635, 55])" by simp
  have h8: "?row Col8_air = Some (Some (U ''-3''))" by simp
  have a: "strip [32, 1635, 55] \<noteq> [] \<and> list_all isdecimal_cp (strip [32, 1635, 55])"
    by (simp add: s7 str_eval)
  have b: "\<not> isdigit (strip (U ''-3''))"
    by (simp add: s3 str_eval)
  have v: "int (decimal_value (strip [32, 1635, 55])) = 37"
    by (simp add: s7 decimal_value_def str_eval)
  from rating_digit_strings[OF e h4 h8] a b e v show ?thesis by (simp add: sample_clean_def)
qed

lemma codes_of_maps:
  "snd ` set AGE_MAP = {1, 2, 3, 4}" "snd ` set DURATION_MAP = {1, 2, 3, 4}"
  "snd ` set FLOOR_MAP = {1, 2, 3}" "snd ` set Q7_MAP = {1, 2, 3, 4, 5, 6}"
  "snd ` set COMMUNITY_MAP = {0, 1, 2}" "snd ` set Q11_MAP = {1, 2, 3, 4}"
  by (auto simp: map_eval)

lemma encode_range:
  "encode v AGE_MAP = Some n \<Longrightarrow> 1 \<le> n \<and> n \<le> 4"
  "encode v DURATION_MAP = Some n \<Longrightarrow> 1 \<le> n \<and> n \<le> 4"
  "encode v FLOOR_MAP = Some n \<Longrightarrow> 1 \<le> n \<and> n \<le> 3"
  "encode v Q7_MAP = Some n \<Longrightarrow> 1 \<le> n \<and> n \<le> 6"
  "encode v COMMUNITY_MAP = Some n \<Longrightarrow> 0 \<le> n \<and> n \<le> 2"
  "encode v Q11_MAP = Some n \<Longrightarrow> 1 \<le> n \<and> n \<le> 4"
  using encode_codes[of v AGE_MAP n] encode_codes[of v DURATION_MAP n]
    encode_codes[of v FLOOR_MAP n] encode_codes[of v Q7_MAP n]
    encode_codes[of v COMMUNITY_MAP n] encode_codes[of v Q11_MAP n]
  by (auto simp: codes_of_maps)

lemma strip_digits: "strip (digits n) = digits n"
  by (rule strip_decimal) (rule digits_decimal)

text \<open>
  The raw noise rating \<open>"11"\<close> is kept as 11, outside 1 to 10, and is not missing.
\<close>

theorem out_of_range_rating_counterexample:
  "encode_row 1 (blank_row(Col4_noise := Some (Some (U ''11'')))) = Inr (sample_clean (Some 11)) \<and>
   Q4_noise_rating (sample_clean (Some 11)) = Some 11 \<and> \<not> (1 \<le> (11::int) \<and> (11::int) \<le> 10)"
proof -
  have "rating (strip (U ''11'')) = Inr (Some 11)"
    by (simp add: rating_def py_int_def int_unsigned_def str_eval)
  then show ?thesis by (simp add: encode_row_sample sample_clean_def)
qed

text \<open>
  C2 (amended). In every clean record each ordinal code is missing or a code of its
  table (age and residency 1 to 4, floor 1 to 3, concentration 1 to 6, community 0 to
  2, quality of life 1 to 4) and the noise-spike flag is 0 or 1; the noise rating and
  the air quality are missing or a non-negative integer with no upper bound: the
  decimal text of any natural number is kept as that number, so an out-of-range input
  is kept as it is.
\<close>

theorem clean_record_numeric_fields:
  assumes "encode_row idx row = Inr r"
  shows "(\<forall>n. age_numeric r = Some n \<longrightarrow> 1 \<le> n \<and> n \<le> 4) \<and>
         (\<forall>n. residency_numeric r = Some n \<longrightarrow> 1 \<le> n \<and> n \<le> 4) \<and>
         (\<forall>n. floor_numeric r = Some n \<longrightarrow> 1 \<le> n \<and> n \<le> 3) \<and>
         (\<forall>n. Q7_concentration r = Some n \<longrightarrow> 1 \<le> n \<and> n \<le> 6) \<and>
         (\<forall>n. Q10_community r = Some n \<longrightarrow> 0 \<le> n \<and> n \<le> 2) \<and>
         (\<forall>n. Q11_QoL r = Some n \<longrightarrow> 1 \<le> n \<and> n \<le> 4) \<and>
         (Q6_noise_spike r = 0 \<or> Q6_noise_spike r = 1) \<and>
         (\<forall>n. Q4_noise_rating r = Some n \<longrightarrow> 0 \<le> n) \<and>
         (\<forall>n. Q8_air_quality r = Some n \<longrightarrow> 0 \<le> n) \<and>
         (\<forall>n. row Col4_noise = Some (Some (digits n)) \<longrightarrow> Q4_noise_rating r = Some (int n)) \<and>
         (\<forall>n. row Col8_air = Some (Some (digits n)) \<longrightarrow> Q8_air_quality r = Some (int n))"
proof -
  from encode_row_InrD[OF assms] obtain a d f q4 q6 q7 q8 q10 q11 where
    c4: "cell row Col4_noise = Inr q4" and c8: "cell row Col8_air = Inr q8" and
    r4: "rating q4 = Inr (Q4_noise_rating r)" and r8: "rating q8 = Inr (Q8_air_quality r)" and
    e: "age_numeric r = encode a AGE_MAP" "residency_numeric r = encode d DURATION_MAP"
       "floor_numeric r = encode f FLOOR_MAP" "Q7_concentration r = encode q7 Q7_MAP"
       "Q10_community r = encode q10 COMMUNITY_MAP" "Q11_QoL r = encode q11 Q11_MAP" and
    s: "Q6_noise_spike r = noise_spike q6"
    by auto
  have codes: "\<forall>n. age_numeric r = Some n \<longrightarrow> 1 \<le> n \<and> n \<le> 4"
    "\<forall>n. residency_numeric r = Some n \<longrightarrow> 1 \<le> n \<and> n \<le> 4"
    "\<forall>n. floor_numeric r = Some n \<longrightarrow> 1 \<le> n \<and> n \<le> 3"
    "\<forall>n. Q7_concentration r = Some n \<longrightarrow> 1 \<le> n \<and> n \<le> 6"
    "\<forall>n. Q10_community r = Some n \<longrightarrow> 0 \<le> n \<and> n \<le> 2"
    "\<forall>n. Q11_QoL r = Some n \<longrightarrow> 1 \<le> n \<and> n \<le> 4"
    using e by (auto dest: encode_range)
  have spike: "Q6_noise_spike r = 0 \<or> Q6_noise_spike r = 1"
    by (simp add: s noise_spike_def)
  have nn: "\<forall>n. Q4_noise_rating r = Some n \<longrightarrow> 0 \<le> n"
    "\<forall>n. Q8_air_quality r = Some n \<longrightarrow> 0 \<le> n"
    using r4 r8 rating_nonneg by auto
  have k4: "\<forall>n. row Col4_noise = Some (Some (digits n)) \<longrightarrow> Q4_noise_rating r = Some (int n)"
    using c4 r4 by (auto simp: cell_def strip_digits rating_digits)
  have k8: "\<forall>n. row Col8_air = Some (Some (digits n)) \<longrightarrow> Q8_air_quality r = Some (int n)"
    using c8 r8 by (auto simp: cell_def strip_digits rating_digits)
  from codes spike nn k4 k8 show ?thesis by blast
qed

theorem clean_record_numeric_fields_witness:
  "encode_row 1 (blank_row(Col4_noise := Some (Some (digits 11)))) = Inr (sample_clean (Some 11)) \<and>
   Q4_noise_rating (sample_clean (Some 11)) = Some (int 11) \<and> (0::int) \<le> 11 \<and>
   Q6_noise_spike (sample_clean (Some 11)) = 1"
proof -
  let ?row = "blank_row(Col4_noise := Some (Some (digits 11)))"
  have "rating (strip (digits 11)) = Inr (Some 11)"
    using rating_digits[of 11] by (simp add: strip_digits)
  then have e: "encode_row 1 ?row = Inr (sample_clean (Some 11))" by (rule encode_row_sample)
  have h: "?row Col4_noise = Some (Some (digits 11))" by simp
  from clean_record_numeric_fields[OF e] h e show ?thesis by (auto simp: sample_clean_def)
qed

section \<open>Properties of the analysis scripts\<close>

lemmas float_eval = flt_def fgt_def fge_def fabs_def lit_0_05_def lit_0_4_def lit_0_7_def

lemma str_int_no_warning: "9888 \<notin> set (str_int n)"
  by (auto simp: str_int_def dest!: digits_ascii)

text \<open>
  A significant strong correlation on ten rows is reported without any caveat,
  although ten is below thirty.
\<close>

theorem interpret_caveat_counterexample:
  "(10::int) < 30 \<and> \<not> has_caveat (interpret_rho (Float (4/5)) (Float (1/100)) 10)"
  by (simp add: interpret_rho_def float_eval U_def has_caveat_def)

text \<open>
  C1 (amended). The interpretation of a Spearman result carries the advisory caveat
  exactly when the result is not significant, that is when \<open>p < 0.05\<close> fails,
  whatever the effective sample size; the caveat quotes that size. It is the
  Kruskal-Wallis interpretation that carries its caveat exactly when the total
  sample size is below 30, whatever the significance.
\<close>

theorem caveat_conditions:
  "(has_caveat (interpret_rho rho p n) \<longleftrightarrow> \<not> flt p lit_0_05) \<and>
   (has_caveat (kw_interpret p n_groups n_total) \<longleftrightarrow> n_total < 30)"
proof -
  have a: "has_caveat (interpret_rho rho p n) \<longleftrightarrow> \<not> flt p lit_0_05"
    by (simp add: interpret_rho_def has_caveat_def U_def str_int_no_warning Let_def)
  have b: "has_caveat (kw_interpret p n_groups n_total) \<longleftrightarrow> n_total < 30"
    by (simp add: kw_interpret_def has_caveat_def U_def str_int_no_warning Let_def)
  from a b show ?thesis by blast
qed

theorem caveat_conditions_witness:
  "\<not> flt (Float (1/2)) lit_0_05 \<and> has_caveat (interpret_rho (Float (1/2)) (Float (1/2)) 100) \<and>
   flt (Float (1/100)) lit_0_05 \<and> \<not> has_caveat (interpret_rho (Float (4/5)) (Float (1/100)) 10) \<and>
   has_caveat (kw_interpret (Float (1/100)) 4 20)"
proof -
  have a: "\<not> flt (Float (1/2)) lit_0_05" by (simp add: float_eval)
  have b: "flt (Float (1/100)) lit_0_05" by (simp add: float_eval)
  have c: "(20::int) < 30" by simp
  from a b c caveat_conditions[of "Float (1/2)" "Float (1/2)" 100 4 20]
    caveat_conditions[of "Float (4/5)" "Float (1/100)" 10 4 20]
  show ?thesis by blast
qed


lemmas script_eval = sbind_def sreturn_def emit_def call_def

lemma sbind_call:
  "sbind (call ev r) f =
     (case r of Inl e \<Rightarrow> ([ev], Inl e) | Inr x \<Rightarrow> (ev # fst (f x), snd (f x)))"
  by (simp add: sbind_def call_def split: sum.splits prod.splits)

lemma sbind_emit: "sbind (emit ev) f = (ev # fst (f ()), snd (f ()))"
  by (simp add: sbind_def emit_def split: prod.splits)

lemma sbind_Inr: "sbind (es, Inr x) f = (es @ fst (f x), snd (f x))"
  by (simp add: sbind_def split: prod.splits)

lemma sbind_Inl: "sbind (es, Inl e) f = (es, Inl e)"
  by (simp add: sbind_def)

lemma sbind_return: "sbind (sreturn x) f = f x"
  by (simp add: sbind_def sreturn_def split: prod.splits)

text \<open>
  C9. On a table of shape 2 by 2, \<open>run_fishers\<close> calls Fisher's exact test on the
  table and reports its p-value and odds ratio, which it returns. On a table of any
  other shape, so on every larger one, it calls the chi-square test of independence
  on the same table, reports statistic, degrees of freedom and p-value, then prints
  the warning that the table is larger than 2 by 2, that chi-square was used and
  that the result is to be interpreted with caution, and returns no odds ratio. The
  branch of the exact test prints no such warning. An exception of the library ends
  the run after the call.
\<close>

theorem run_fishers_branches:
  "(shape ct_arr = (2, 2) \<longrightarrow>
      (\<forall>oddsratio p. fisher_exact S ct_arr = Inr (oddsratio, p) \<longrightarrow>
         run_fishers S ct_arr label =
           ([Call_fisher_exact ct_arr, Print_fisher label p oddsratio,
             Print_text (U ''   '' @ [8594] @ U '' '' @
               (if flt p lit_0_05 then U ''SIGNIFICANT '' @ [10003] else U ''not significant''))],
            Inr (Some oddsratio, p))) \<and>
      (\<forall>e. fisher_exact S ct_arr = Inl e \<longrightarrow>
         run_fishers S ct_arr label = ([Call_fisher_exact ct_arr], Inl e))) \<and>
   (shape ct_arr \<noteq> (2, 2) \<longrightarrow>
      (\<forall>chi2 p dof. chi2_contingency S ct_arr = Inr (chi2, p, dof) \<longrightarrow>
         run_fishers S ct_arr label =
           ([Call_chi2_contingency ct_arr, Print_chi2 label (shape ct_arr) chi2 dof p,
             Print_text (U ''   '' @ [9888] @ U ''  Table > 2'' @ [215] @ U ''2: Chi'' @ [178] @
                         U '' used; interpret with caution (small n).''),
             Print_text (U ''   '' @ [8594] @ U '' '' @
               (if flt p lit_0_05 then U ''SIGNIFICANT '' @ [10003] else U ''not significant''))],
            Inr (None, p))) \<and>
      (\<forall>e. chi2_contingency S ct_arr = Inl e \<longrightarrow>
         run_fishers S ct_arr label = ([Call_chi2_contingency ct_arr], Inl e)))"
proof (cases "shape ct_arr = (2, 2)")
  case True
  then show ?thesis
    by (auto simp: run_fishers_def sbind_call sbind_emit sbind_return sbind_Inr sbind_Inl sreturn_def)
next
  case False
  then show ?thesis
    by (auto simp: run_fishers_def chi2_caution_def sbind_call sbind_emit sbind_return sbind_Inr
        sbind_Inl sreturn_def)
qed

theorem run_fishers_branches_witness:
  "shape [[5, 0], [0, 5]] = (2, 2) \<and>
   run_fishers (scipy_contingency (PosInf, Float (1/126)) (Float (7/25), Float (869/1000), 2))
       [[5, 0], [0, 5]] (U ''D'') =
     ([Call_fisher_exact [[5, 0], [0, 5]], Print_fisher (U ''D'') (Float (1/126)) PosInf,
       Print_text (U ''   '' @ [8594] @ U '' SIGNIFICANT '' @ [10003])],
      Inr (Some PosInf, Float (1/126))) \<and>
   shape [[1, 2, 3], [4, 5, 6]] \<noteq> (2, 2) \<and>
   run_fishers (scipy_contingency (PosInf, Float (1/126)) (Float (7/25), Float (869/1000), 2))
       [[1, 2, 3], [4, 5, 6]] (U ''E'') =
     ([Call_chi2_contingency [[1, 2, 3], [4, 5, 6]],
       Print_chi2 (U ''E'') (2, 3) (Float (7/25)) 2 (Float (869/1000)),
       Print_text (U ''   '' @ [9888] @ U ''  Table > 2'' @ [215] @ U ''2: Chi'' @ [178] @
                   U '' used; interpret with caution (small n).''),
       Print_text (U ''   '' @ [8594] @ U '' not significant'')],
      Inr (None, Float (869/1000)))"
proof -
  let ?S = "scipy_contingency (PosInf, Float (1/126)) (Float (7/25), Float (869/1000), 2)"
  have a: "shape [[5, 0], [0, 5]] = (2, 2)" by (simp add: shape_def)
  have b: "shape [[1, 2, 3], [4, 5, 6]] \<noteq> (2, 2)" by (simp add: shape_def)
  have b': "shape [[1, 2, 3], [4, 5, 6]] = (2, 3)" by (simp add: shape_def)
  have f: "fisher_exact ?S [[5, 0], [0, 5]] = Inr (PosInf, Float (1/126))"
    by (simp add: scipy_contingency_def scipy_const_def)
  have c: "chi2_contingency ?S [[1, 2, 3], [4, 5, 6]] = Inr (Float (7/25), Float (869/1000), 2)"
    by (simp add: scipy_contingency_def scipy_const_def)
  have s: "flt (Float (1/126)) lit_0_05" by (simp add: flt_def lit_0_05_def)
  have n: "\<not> flt (Float (869/1000)) lit_0_05" by (simp add: flt_def lit_0_05_def)
  from run_fishers_branches[of "[[5, 0], [0, 5]]" ?S "U ''D''"] a f s
  have 1: "run_fishers ?S [[5, 0], [0, 5]] (U ''D'') =
     ([Call_fisher_exact [[5, 0], [0, 5]], Print_fisher (U ''D'') (Float (1/126)) PosInf,
       Print_text (U ''   '' @ [8594] @ U '' SIGNIFICANT '' @ [10003])],
      Inr (Some PosInf, Float (1/126)))" by (simp add: U_def)
  from run_fishers_branches[of "[[1, 2, 3], [4, 5, 6]]" ?S "U ''E''"] b c n
  have 2: "run_fishers ?S [[1, 2, 3], [4, 5, 6]] (U ''E'') =
     ([Call_chi2_contingency [[1, 2, 3], [4, 5, 6]],
       Print_chi2 (U ''E'') (2, 3) (Float (7/25)) 2 (Float (869/1000)),
       Print_text (U ''   '' @ [9888] @ U ''  Table > 2'' @ [215] @ U ''2: Chi'' @ [178] @
                   U '' used; interpret with caution (small n).''),
       Print_text (U ''   '' @ [8594] @ U '' not significant'')],
      Inr (None, Float (869/1000)))" by (simp add: U_def b')
  from a b 1 2 show ?thesis by blast
qed








lemma select_values_eq:
  "select_values df key k val =
     concat (map (\<lambda>r. if key r = Some k then (case val r of None \<Rightarrow> [] | Some x \<Rightarrow> [x]) else []) df)"
  by (induction df) (auto simp: select_values_def List.map_filter_def)

lemma map_of_tabulate: "s \<in> set xs \<Longrightarrow> map_of (map (\<lambda>s. (s, f s)) xs) s = Some (f s)"
  by (induction xs) auto

lemma kw_test_eq:
  "kw_test S heading groups n_groups =
     (case kruskal S (map snd groups) of
        Inl e \<Rightarrow> ([Call_kruskal (map snd groups)], Inl e)
      | Inr (stat, p) \<Rightarrow>
          ([Call_kruskal (map snd groups),
            Print_kw heading stat p
              (kw_interpret p n_groups (int (sum_list (map (\<lambda>(k, v). length v) groups))))],
           Inr (stat, p)))"
  by (simp add: kw_test_def Let_def sbind_call sbind_emit sbind_return sreturn_def
      split: sum.splits prod.splits)

lemma kw_test_hd:
  "fst (kw_test S heading groups n_groups) \<noteq> [] \<and>
   hd (fst (kw_test S heading groups n_groups)) = Call_kruskal (map snd groups)"
  by (simp add: kw_test_eq split: sum.splits prod.splits)

lemma sbind_fst_hd:
  "fst m \<noteq> [] \<Longrightarrow> fst (sbind m f) \<noteq> [] \<and> hd (fst (sbind m f)) = hd (fst m)"
  by (cases m) (auto simp: sbind_def split: sum.splits prod.splits)

lemma kruskal_section_hd:
  "fst (kruskal_section S df) \<noteq> [] \<and>
   hd (fst (kruskal_section S df)) = Call_kruskal (map snd (floor_groups df))"
  unfolding kruskal_section_def using sbind_fst_hd kw_test_hd by metis

lemma kruskal_section_second_call:
  assumes "kruskal S (map snd (floor_groups df)) = Inr a"
  shows "fst (kruskal_section S df) ! 2 = Call_kruskal (map snd (site_noise_groups df))"
proof -
  obtain stat p where a: "a = (stat, p)" by (cases a)
  show ?thesis
    using assms a 
    by (simp add: kruskal_section_def kw_test_eq sbind_Inr sbind_Inl
        split: sum.splits prod.splits)
qed

lemma floor_groups_set:
  "set (floor_groups df) =
     {(fl, v). fl \<in> set floor_order \<and> v = select_values df df_floor_level fl df_Q4_noise_rating \<and>
               v \<noteq> []}"
  by (auto simp: floor_groups_def)


lemmas table_eval = df_one_site_def df_balanced_def mk_row_def site_order_def floor_order_def
  select_values_def List.map_filter_def U_def

lemma groups_one_site:
  "map snd (floor_groups df_one_site) = [[1], [2]]"
  "map snd (site_noise_groups df_one_site) = [[1, 2], [], [], []]"
  "map snd (site_qol_groups df_one_site) = [[1, 2], [], [], []]"
  by (simp_all add: floor_groups_def site_noise_groups_def site_qol_groups_def table_eval)

lemma scipy_const_simps:
  "spearmanr (scipy_const a b) xs ys = Inr (a, b)"
  "kruskal (scipy_const a b) gs = Inr (a, b)"
  "mannwhitneyu (scipy_const a b) g1 g2 = Inr (a, b)"
  by (simp_all add: scipy_const_def)

text \<open>
  On a table whose respondents all live at one site, the second Kruskal-Wallis call
  receives all four site groups, three of them empty: one non-empty group remains,
  no group is dropped, and the test is called.
\<close>

theorem kruskal_empty_groups_counterexample:
  "map snd (site_noise_groups df_one_site) = [[1, 2], [], [], []] \<and>
   fst (kruskal_section (scipy_const NaN NaN) df_one_site) ! 2 =
     Call_kruskal [[1, 2], [], [], []]"
  using kruskal_section_second_call[of "scipy_const NaN NaN" df_one_site "(NaN, NaN)"]
  by (simp add: groups_one_site scipy_const_simps)

lemma kruskal_section_events:
  "kruskal_section S df =
     (case kruskal S (map snd (floor_groups df)) of
        Inl e \<Rightarrow> ([Call_kruskal (map snd (floor_groups df))], Inl e)
      | Inr (stat_a, p_a) \<Rightarrow>
          (case kruskal S (map snd (site_noise_groups df)) of
             Inl e \<Rightarrow>
               ([Call_kruskal (map snd (floor_groups df)),
                 Print_kw (U ''A. Floor Level '' @ [215] @ U '' Q4 Noise Rating'') stat_a p_a
                   (kw_interpret p_a (int (length (floor_groups df)))
                      (int (sum_list (map (\<lambda>(k, v). length v) (floor_groups df))))),
                 Call_kruskal (map snd (site_noise_groups df))], Inl e)
           | Inr (stat_b, p_b) \<Rightarrow>
               (case kruskal S (map snd (site_qol_groups df)) of
                  Inl e \<Rightarrow>
                    ([Call_kruskal (map snd (floor_groups df)),
                      Print_kw (U ''A. Floor Level '' @ [215] @ U '' Q4 Noise Rating'') stat_a p_a
                        (kw_interpret p_a (int (length (floor_groups df)))
                           (int (sum_list (map (\<lambda>(k, v). length v) (floor_groups df))))),
                      Call_kruskal (map snd (site_noise_groups df)),
                      Print_kw (U ''B. Site '' @ [215] @ U '' Q4 Noise Rating'') stat_b p_b
                        (kw_interpret p_b 4
                           (int (sum_list (map (\<lambda>(k, v). length v) (site_noise_groups df))))),
                      Call_kruskal (map snd (site_qol_groups df))], Inl e)
                | Inr (stat_c, p_c) \<Rightarrow>
                    ([Call_kruskal (map snd (floor_groups df)),
                      Print_kw (U ''A. Floor Level '' @ [215] @ U '' Q4 Noise Rating'') stat_a p_a
                        (kw_interpret p_a (int (length (floor_groups df)))
                           (int (sum_list (map (\<lambda>(k, v). length v) (floor_groups df))))),
                      Call_kruskal (map snd (site_noise_groups df)),
                      Print_kw (U ''B. Site '' @ [215] @ U '' Q4 Noise Rating'') stat_b p_b
                        (kw_interpret p_b 4
                           (int (sum_list (map (\<lambda>(k, v). length v) (site_noise_groups df))))),
                      Call_kruskal (map snd (site_qol_groups df)),
                      Print_kw (U ''C. Site '' @ [215] @ U '' Q11 QoL'') stat_c p_c
                        (kw_interpret p_c 4
                           (int (sum_list (map (\<lambda>(k, v). length v) (site_qol_groups df)))))] @
                     fst (sbind (posthoc S (site_noise_groups df) pairs)
                            (\<lambda>_. posthoc S (site_qol_groups df) pairs)),
                     snd (sbind (posthoc S (site_noise_groups df) pairs)
                            (\<lambda>_. posthoc S (site_qol_groups df) pairs))))))"
  by (simp add: kruskal_section_def kw_test_eq sbind_Inr sbind_Inl
      split: sum.splits prod.splits)


lemma group_sizes:
  "sum_list (map (\<lambda>(k, v). length v) gs) = sum_list (map length (map snd gs))"
  "length gs = length (map snd gs)"
  by (induction gs) auto

text \<open>
  C6 (amended). Each group is the list, in table order, of the outcome values of the
  rows whose grouping field is that category and whose outcome is present. For the
  floor test the groups passed on are exactly the non-empty ones of the three floor
  categories. The two site tests keep one group for each of the four sites, empty or
  not, under its site name. The three Kruskal-Wallis calls are made one after the
  other, on the floor groups whatever their number, on all four groups of noise
  ratings by site and on all four groups of quality of life by site, each as soon
  as the call before it has returned: no check counts the non-empty groups. An
  exception of a call ends the run there.
\<close>

theorem kruskal_groups_and_calls:
  "select_values df key k val =
     concat (map (\<lambda>r. if key r = Some k then (case val r of None \<Rightarrow> [] | Some x \<Rightarrow> [x])
                       else []) df) \<and>
   map fst (site_noise_groups df) = site_order \<and>
   map fst (site_qol_groups df) = site_order \<and>
   length (site_noise_groups df) = 4 \<and> length (site_qol_groups df) = 4 \<and>
   (\<forall>s\<in>set site_order.
      map_of (site_noise_groups df) s = Some (select_values df df_site s df_Q4_noise_rating) \<and>
      map_of (site_qol_groups df) s = Some (select_values df df_site s df_Q11_QoL)) \<and>
   set (floor_groups df) =
     {(fl, v). fl \<in> set floor_order \<and>
               v = select_values df df_floor_level fl df_Q4_noise_rating \<and> v \<noteq> []} \<and>
   kruskal_section S df =
        (case kruskal S (map snd (floor_groups df)) of
           Inl e \<Rightarrow> ([Call_kruskal (map snd (floor_groups df))], Inl e)
         | Inr (stat_a, p_a) \<Rightarrow>
             (case kruskal S (map snd (site_noise_groups df)) of
                Inl e \<Rightarrow>
                  ([Call_kruskal (map snd (floor_groups df)),
                    Print_kw (U ''A. Floor Level '' @ [215] @ U '' Q4 Noise Rating'') stat_a p_a
                      (kw_interpret p_a (int (length (floor_groups df)))
                         (int (sum_list (map (\<lambda>(k, v). length v) (floor_groups df))))),
                    Call_kruskal (map snd (site_noise_groups df))], Inl e)
              | Inr (stat_b, p_b) \<Rightarrow>
                  (case kruskal S (map snd (site_qol_groups df)) of
                     Inl e \<Rightarrow>
                       ([Call_kruskal (map snd (floor_groups df)),
                         Print_kw (U ''A. Floor Level '' @ [215] @ U '' Q4 Noise Rating'') stat_a p_a
                           (kw_interpret p_a (int (length (floor_groups df)))
                              (int (sum_list (map (\<lambda>(k, v). length v) (floor_groups df))))),
                         Call_kruskal (map snd (site_noise_groups df)),
                         Print_kw (U ''B. Site '' @ [215] @ U '' Q4 Noise Rating'') stat_b p_b
                           (kw_interpret p_b 4
                              (int (sum_list (map (\<lambda>(k, v). length v) (site_noise_groups df))))),
                         Call_kruskal (map snd (site_qol_groups df))], Inl e)
                   | Inr (stat_c, p_c) \<Rightarrow>
                       ([Call_kruskal (map snd (floor_groups df)),
                         Print_kw (U ''A. Floor Level '' @ [215] @ U '' Q4 Noise Rating'') stat_a p_a
                           (kw_interpret p_a (int (length (floor_groups df)))
                              (int (sum_list (map (\<lambda>(k, v). length v) (floor_groups df))))),
                         Call_kruskal (map snd (site_noise_groups df)),
                         Print_kw (U ''B. Site '' @ [215] @ U '' Q4 Noise Rating'') stat_b p_b
                           (kw_interpret p_b 4
                              (int (sum_list (map (\<lambda>(k, v). length v) (site_noise_groups df))))),
                         Call_kruskal (map snd (site_qol_groups df)),
                         Print_kw (U ''C. Site '' @ [215] @ U '' Q11 QoL'') stat_c p_c
                           (kw_interpret p_c 4
                              (int (sum_list (map (\<lambda>(k, v). length v) (site_qol_groups df)))))] @
                        fst (sbind (posthoc S (site_noise_groups df) pairs)
                               (\<lambda>_. posthoc S (site_qol_groups df) pairs)),
                        snd (sbind (posthoc S (site_noise_groups df) pairs)
                               (\<lambda>_. posthoc S (site_qol_groups df) pairs))))))"
proof -
  have 1: "map fst (site_noise_groups df) = site_order" "map fst (site_qol_groups df) = site_order"
    by (simp_all add: site_noise_groups_def site_qol_groups_def comp_def)
  have 2: "\<forall>s\<in>set site_order.
      map_of (site_noise_groups df) s = Some (select_values df df_site s df_Q4_noise_rating) \<and>
      map_of (site_qol_groups df) s = Some (select_values df df_site s df_Q11_QoL)"
    unfolding site_noise_groups_def site_qol_groups_def by (simp add: map_of_tabulate)
  have 3: "length (site_noise_groups df) = 4" "length (site_qol_groups df) = 4"
    by (simp_all add: site_noise_groups_def site_qol_groups_def site_order_def)
  from select_values_eq[of df key k val] 1 2 3 floor_groups_set[of df]
    kruskal_section_events[of S df]
  show ?thesis by blast
qed

theorem kruskal_groups_and_calls_witness:
  "U ''Albert Centre'' \<in> set site_order \<and>
   map_of (site_noise_groups df_one_site) (U ''Albert Centre'') = Some [] \<and>
   map_of (site_qol_groups df_one_site) (U ''Albert Centre'') = Some [] \<and>
   take 5 (fst (kruskal_section (scipy_const NaN NaN) df_one_site)) =
     [Call_kruskal [[1], [2]],
      Print_kw (U ''A. Floor Level '' @ [215] @ U '' Q4 Noise Rating'') NaN NaN
        (kw_interpret NaN 2 2),
      Call_kruskal [[1, 2], [], [], []],
      Print_kw (U ''B. Site '' @ [215] @ U '' Q4 Noise Rating'') NaN NaN
        (kw_interpret NaN 4 2),
      Call_kruskal [[1, 2], [], [], []]]"
proof -
  let ?S = "scipy_const NaN NaN"
  have a: "U ''Albert Centre'' \<in> set site_order" by (simp add: site_order_def)
  have b: "select_values df_one_site df_site (U ''Albert Centre'') df_Q4_noise_rating = []"
    "select_values df_one_site df_site (U ''Albert Centre'') df_Q11_QoL = []"
    by (simp_all add: table_eval)
  note t = kruskal_groups_and_calls[of df_one_site df_site "U ''Albert Centre''"
      df_Q4_noise_rating ?S]
  from t a b have m: "map_of (site_noise_groups df_one_site) (U ''Albert Centre'') = Some []"
    "map_of (site_qol_groups df_one_site) (U ''Albert Centre'') = Some []"
    by auto
  from t have "take 5 (fst (kruskal_section ?S df_one_site)) =
     [Call_kruskal [[1], [2]],
      Print_kw (U ''A. Floor Level '' @ [215] @ U '' Q4 Noise Rating'') NaN NaN
        (kw_interpret NaN 2 2),
      Call_kruskal [[1, 2], [], [], []],
      Print_kw (U ''B. Site '' @ [215] @ U '' Q4 Noise Rating'') NaN NaN
        (kw_interpret NaN 4 2),
      Call_kruskal [[1, 2], [], [], []]]"
    by (simp add: scipy_const_simps group_sizes groups_one_site)
  with a m show ?thesis by blast
qed


lemma groups_balanced:
  "floor_groups df_balanced =
     [(floor_order ! 0, [1, 1, 1, 1]), (floor_order ! 1, [2, 2, 2, 2])]"
  "site_noise_groups df_balanced = map (\<lambda>s. (s, [1, 2])) site_order"
  "site_qol_groups df_balanced = map (\<lambda>s. (s, [1, 2])) site_order"
  by (simp_all add: floor_groups_def site_noise_groups_def site_qol_groups_def table_eval)

lemma posthoc_balanced:
  "posthoc (scipy_const a b) (map (\<lambda>s. (s, [1, 2])) site_order) pairs =
     (concat (map (\<lambda>(s1, s2). [Call_mannwhitneyu [1, 2] [1, 2], mwu_interpret b s1 s2]) pairs),
      Inr ())"
  by (simp add: pairs_def site_order_def U_def scipy_const_simps sbind_call sbind_emit
      sbind_return sbind_Inr sreturn_def emit_def)

text \<open>
  Every pairwise test that a post-hoc loop calls has at least two observations in
  each of its two groups.
\<close>

lemma posthoc_calls_guarded:
  "Call_mannwhitneyu g1 g2 \<in> set (fst (posthoc S groups ps)) \<Longrightarrow>
     2 \<le> length g1 \<and> 2 \<le> length g2"
proof (induction S groups ps rule: posthoc.induct)
  case (1 S groups)
  then show ?case by (simp add: sreturn_def)
next
  case (2 S groups s1 s2 ps)
  show ?case
  proof (cases "map_of groups s1")
    case None
    with 2 show ?thesis by simp
  next
    case (Some h1)
    show ?thesis
    proof (cases "map_of groups s2")
      case None
      with 2 Some show ?thesis by simp
    next
      case h2: (Some h2)
      from 2 Some h2 show ?thesis
        by (auto simp: sbind_def sreturn_def call_def emit_def mwu_interpret_def
            split: if_splits sum.splits prod.splits)
    qed
  qed
qed

text \<open>
  C3. The post-hoc Mann-Whitney tests are claimed to run only after a significant
  Kruskal-Wallis result. On the table with two respondents at each site, and a
  library whose every p-value is 1, the Kruskal-Wallis line of test B reports no
  significant difference, and all twelve pairwise tests are called nevertheless.
\<close>

theorem posthoc_without_significance:
  "fst (kruskal_section (scipy_const (Float 0) (Float 1)) df_balanced) ! 3 =
     Print_kw (U ''B. Site '' @ [215] @ U '' Q4 Noise Rating'') (Float 0) (Float 1)
       (U ''No significant difference ('' @ [9888] @ U '' n=8, small subgroups '' @ [8212] @
        U '' indicative only)'') \<and>
   \<not> flt (Float 1) lit_0_05 \<and>
   filter is_mwu_call (fst (kruskal_section (scipy_const (Float 0) (Float 1)) df_balanced)) =
     replicate 12 (Call_mannwhitneyu [1, 2] [1, 2])"
proof -
  let ?S = "scipy_const (Float 0) (Float 1)"
  have ns: "\<not> flt (Float 1) lit_0_05" by (simp add: float_eval)
  have ev: "fst (kruskal_section ?S df_balanced) =
     [Call_kruskal [[1, 1, 1, 1], [2, 2, 2, 2]],
      Print_kw (U ''A. Floor Level '' @ [215] @ U '' Q4 Noise Rating'') (Float 0) (Float 1)
        (kw_interpret (Float 1) 2 8),
      Call_kruskal [[1, 2], [1, 2], [1, 2], [1, 2]],
      Print_kw (U ''B. Site '' @ [215] @ U '' Q4 Noise Rating'') (Float 0) (Float 1)
        (kw_interpret (Float 1) 4 8),
      Call_kruskal [[1, 2], [1, 2], [1, 2], [1, 2]],
      Print_kw (U ''C. Site '' @ [215] @ U '' Q11 QoL'') (Float 0) (Float 1)
        (kw_interpret (Float 1) 4 8)] @
     concat (map (\<lambda>(s1, s2). [Call_mannwhitneyu [1, 2] [1, 2], mwu_interpret (Float 1) s1 s2]) pairs) @
     concat (map (\<lambda>(s1, s2). [Call_mannwhitneyu [1, 2] [1, 2], mwu_interpret (Float 1) s1 s2]) pairs)"
    by (simp only: kruskal_section_def groups_balanced posthoc_balanced)
       (simp add: kw_test_eq scipy_const_simps sbind_Inr sbind_Inl site_order_def comp_def)
  have kw: "kw_interpret (Float 1) 4 8 =
      U ''No significant difference ('' @ [9888] @ U '' n=8, small subgroups '' @ [8212] @
        U '' indicative only)''"
    by (simp add: kw_interpret_def float_eval str_int_def digits.simps U_def)
  have f: "filter is_mwu_call
      (concat (map (\<lambda>(s1, s2). [Call_mannwhitneyu [1, 2] [1, 2], mwu_interpret (Float 1) s1 s2]) pairs)) =
      replicate 6 (Call_mannwhitneyu [1, 2] [1, 2])"
    by (simp add: pairs_def site_order_def is_mwu_call_def mwu_interpret_def eval_nat_numeral)
  have 1: "fst (kruskal_section ?S df_balanced) ! 3 =
     Print_kw (U ''B. Site '' @ [215] @ U '' Q4 Noise Rating'') (Float 0) (Float 1)
       (kw_interpret (Float 1) 4 8)"
    by (simp add: ev)
  have 2: "filter is_mwu_call (fst (kruskal_section ?S df_balanced)) =
     replicate 12 (Call_mannwhitneyu [1, 2] [1, 2])"
    by (simp add: ev f is_mwu_call_def) (simp add: eval_nat_numeral)
  from 1 2 ns kw show ?thesis by simp
qed


end
